theory Spec2Isabelle
  imports Complex_Main "HOL-Library.Word" "HOL-Library.AList"
begin

section \<open>Conventions of the embedding\<close>

text \<open>
  The theory embeds the Go packages \<open>quota\<close>, \<open>registry\<close>, \<open>connection\<close> and \<open>router\<close> of
  tunnel-core. A struct is a record, and the field \<open>F\<close> of the struct \<open>T\<close> is written with a
  short prefix for \<open>T\<close> (\<open>tb_tokens\<close> for \<open>TokenBucket.tokens\<close>), since the structs share field
  names. A Go \<open>int\<close> is a 64-bit word read as two's complement; a \<open>uint32\<close> is a 32-bit word.
  \<open>time.Time\<close> is a number of nanoseconds on the process's clock, \<open>time.Duration\<close> a number of
  nanoseconds (the saturation of \<open>Time.Sub\<close> at the ends of the 64-bit range is not
  modelled); every \<open>time.Now()\<close> of the source is an argument \<open>now\<close> of the model. A
  \<open>float64\<close> is a real number: rounding is not modelled. A \<open>[]byte\<close> is a list of
  characters, and so is a \<open>string\<close>. A Go map is a partial function, or an association
  list where the source takes its \<open>len\<close> or ranges over it.
\<close>

type_synonym go_int = "64 word"
type_synonym u32 = "32 word"
type_synonym Time = int
type_synonym Duration = int
type_synonym bytes = string

definition float64 :: "go_int \<Rightarrow> real" where
  "float64 n = real_of_int (sint n)"

definition Sub :: "Time \<Rightarrow> Time \<Rightarrow> Duration" where
  "Sub t u = t - u"

definition Seconds :: "Duration \<Rightarrow> real" where
  "Seconds d = real_of_int d / 1000000000"

subsection \<open>What a call does: it returns, it blocks for ever, or it stops the process\<close>

datatype 'a outcome = Returns 'a | Blocked | Fatal

definition bind_outcome :: "'a outcome \<Rightarrow> ('a \<Rightarrow> 'b outcome) \<Rightarrow> 'b outcome" where
  "bind_outcome m f = (case m of Returns x \<Rightarrow> f x | Blocked \<Rightarrow> Blocked | Fatal \<Rightarrow> Fatal)"

subsection \<open>sync.RWMutex\<close>

text \<open>
  The state of a \<open>sync.RWMutex\<close> is the number of read locks held and whether the write lock
  is held. The model runs one goroutine at a time, a call from its first statement to its
  return. The outcome \<open>Blocked\<close> is that of a call that does not return in the state it
  was started in: it waits for a lock that is held, or in a \<open>select\<close> none of whose cases
  is ready. A lock that the running call holds itself is never released (every \<open>Unlock\<close> of
  the source follows a \<open>Lock\<close> of the same call), so a call that waits for such a lock
  waits for ever. \<open>RUnlock\<close>
  of a mutex that is not read-locked and \<open>Unlock\<close> of a mutex that is not write-locked are
  the run-time errors of the \<open>sync\<close> package's documentation ("fatal error: sync: Unlock of
  unlocked RWMutex"), which no \<open>recover\<close> catches: the outcome \<open>Fatal\<close>.

  The mutexes of the two limiter tables (\<open>agentMu\<close>, \<open>domainMu\<close>) and of a connection
  (\<open>streamsMu\<close>, \<open>closedMu\<close>) are modelled. The mutexes \<open>AgentLimit.mu\<close>, \<open>DomainLimit.mu\<close>,
  \<open>TokenBucket.mu\<close>, \<open>Stream.mu\<close>, \<open>Manager.connsMu\<close>, \<open>Registry.tunnelsMu\<close> and
  \<open>Registry.connTunnelsMu\<close> are not: each of their critical sections is a \<open>Lock\<close> and its
  \<open>Unlock\<close> around statements that take no lock of the same mutex, so a call finds them free
  and leaves them free.
\<close>

record RWMutex =
  readers :: nat
  writer :: bool

definition unlocked :: RWMutex where
  "unlocked = \<lparr>readers = 0, writer = False\<rparr>"

definition RLock :: "RWMutex \<Rightarrow> RWMutex outcome" where
  "RLock mu = (if writer mu then Blocked else Returns (mu\<lparr>readers := readers mu + 1\<rparr>))"

definition RUnlock :: "RWMutex \<Rightarrow> RWMutex outcome" where
  "RUnlock mu = (if readers mu = 0 then Fatal else Returns (mu\<lparr>readers := readers mu - 1\<rparr>))"

definition Lock :: "RWMutex \<Rightarrow> RWMutex outcome" where
  "Lock mu = (if writer mu \<or> 0 < readers mu then Blocked else Returns (mu\<lparr>writer := True\<rparr>))"

definition Unlock :: "RWMutex \<Rightarrow> RWMutex outcome" where
  "Unlock mu = (if writer mu then Returns (mu\<lparr>writer := False\<rparr>) else Fatal)"

section \<open>quota: the token bucket (limiter.go)\<close>

record TokenBucket =
  tb_capacity :: go_int
  tb_tokens :: real
  tb_refillRate :: real
  tb_lastRefill :: Time

definition NewTokenBucket :: "go_int \<Rightarrow> go_int \<Rightarrow> Time \<Rightarrow> TokenBucket" where
  "NewTokenBucket capacity refillRate now =
     \<lparr>tb_capacity = capacity, tb_tokens = float64 capacity,
      tb_refillRate = float64 refillRate, tb_lastRefill = now\<rparr>"

text \<open>The package's own \<open>min\<close> on \<open>float64\<close>.\<close>

definition min_float :: "real \<Rightarrow> real \<Rightarrow> real" where
  "min_float a b = (if a < b then a else b)"

text \<open>The refill that \<open>Allow\<close>, \<open>AllowN\<close> and \<open>GetStats\<close> each start with.\<close>

definition refill :: "TokenBucket \<Rightarrow> Time \<Rightarrow> TokenBucket" where
  "refill tb now =
     (let elapsed = Seconds (Sub now (tb_lastRefill tb))
      in tb\<lparr>tb_tokens := min_float (float64 (tb_capacity tb)) (tb_tokens tb + elapsed * tb_refillRate tb),
             tb_lastRefill := now\<rparr>)"

definition Allow :: "TokenBucket \<Rightarrow> Time \<Rightarrow> bool \<times> TokenBucket" where
  "Allow tb now =
     (let tb1 = refill tb now
      in if 1 \<le> tb_tokens tb1 then (True, tb1\<lparr>tb_tokens := tb_tokens tb1 - 1\<rparr>)
         else (False, tb1))"


definition GetStats :: "TokenBucket \<Rightarrow> Time \<Rightarrow> (real \<times> go_int) \<times> TokenBucket" where
  "GetStats tb now = (let tb1 = refill tb now in ((tb_tokens tb1, tb_capacity tb1), tb1))"


section \<open>quota: the limiter (limiter.go)\<close>

datatype quota_error =
    ErrAgentStreamLimitExceeded
  | ErrDomainStreamLimitExceeded
  | ErrAgentRateLimitExceeded
  | ErrDomainRateLimitExceeded
  | ErrGlobalStreamLimitExceeded
  | ErrGlobalConnectionLimitExceeded

record AgentLimit =
  al_AgentID :: string
  al_MaxStreams :: go_int
  al_MaxBandwidth :: "64 word"
  al_RateLimit :: go_int
  al_TokenBucket :: TokenBucket
  al_CurrentStreams :: go_int
  al_LastReset :: Time

record DomainLimit =
  dl_Domain :: string
  dl_MaxStreams :: go_int
  dl_RateLimit :: go_int
  dl_TokenBucket :: TokenBucket
  dl_CurrentStreams :: go_int
  dl_LastReset :: Time

text \<open>
  The tables map a key to a pointer to its limit, and nothing else holds the pointer
  between two calls: changing the limit through the pointer is changing the table's entry.
\<close>

record Limiter =
  l_agentLimits :: "string \<rightharpoonup> AgentLimit"
  l_agentMu :: RWMutex
  l_domainLimits :: "string \<rightharpoonup> DomainLimit"
  l_domainMu :: RWMutex
  l_maxConnections :: go_int
  l_maxStreams :: go_int

definition NewLimiter :: "go_int \<Rightarrow> go_int \<Rightarrow> Limiter" where
  "NewLimiter maxConnections maxStreams =
     \<lparr>l_agentLimits = Map.empty, l_agentMu = unlocked,
      l_domainLimits = Map.empty, l_domainMu = unlocked,
      l_maxConnections = maxConnections, l_maxStreams = maxStreams\<rparr>"

text \<open>
  \<open>SetAgentLimit\<close> reads the clock twice: in \<open>NewTokenBucket\<close> and for \<open>LastReset\<close>. The
  struct literal leaves \<open>CurrentStreams\<close> at its zero value.
\<close>

definition SetAgentLimit ::
  "Limiter \<Rightarrow> string \<Rightarrow> go_int \<Rightarrow> 64 word \<Rightarrow> go_int \<Rightarrow> Time \<Rightarrow> Time \<Rightarrow> Limiter outcome" where
  "SetAgentLimit l agentID maxStreams maxBandwidth rateLimit now1 now2 =
     bind_outcome (Lock (l_agentMu l)) (\<lambda>mu.
       let limit = \<lparr>al_AgentID = agentID, al_MaxStreams = maxStreams,
                    al_MaxBandwidth = maxBandwidth, al_RateLimit = rateLimit,
                    al_TokenBucket = NewTokenBucket rateLimit rateLimit now1,
                    al_CurrentStreams = 0, al_LastReset = now2\<rparr>;
           l1 = l\<lparr>l_agentLimits := (l_agentLimits l)(agentID \<mapsto> limit)\<rparr>
       in bind_outcome (Unlock mu) (\<lambda>mu'. Returns (l1\<lparr>l_agentMu := mu'\<rparr>)))"

definition SetDomainLimit ::
  "Limiter \<Rightarrow> string \<Rightarrow> go_int \<Rightarrow> go_int \<Rightarrow> Time \<Rightarrow> Time \<Rightarrow> Limiter outcome" where
  "SetDomainLimit l domain maxStreams rateLimit now1 now2 =
     bind_outcome (Lock (l_domainMu l)) (\<lambda>mu.
       let limit = \<lparr>dl_Domain = domain, dl_MaxStreams = maxStreams, dl_RateLimit = rateLimit,
                    dl_TokenBucket = NewTokenBucket rateLimit rateLimit now1,
                    dl_CurrentStreams = 0, dl_LastReset = now2\<rparr>;
           l1 = l\<lparr>l_domainLimits := (l_domainLimits l)(domain \<mapsto> limit)\<rparr>
       in bind_outcome (Unlock mu) (\<lambda>mu'. Returns (l1\<lparr>l_domainMu := mu'\<rparr>)))"

definition CheckAgentStreamLimit ::
  "Limiter \<Rightarrow> string \<Rightarrow> (quota_error option \<times> Limiter) outcome" where
  "CheckAgentStreamLimit l agentID =
     bind_outcome (RLock (l_agentMu l)) (\<lambda>mu.
       let found = l_agentLimits l agentID
       in bind_outcome (RUnlock mu) (\<lambda>mu'.
            let l1 = l\<lparr>l_agentMu := mu'\<rparr>
            in case found of
                 None \<Rightarrow> Returns (None, l1)
               | Some limit \<Rightarrow>
                   if sint (al_MaxStreams limit) \<le> sint (al_CurrentStreams limit)
                   then Returns (Some ErrAgentStreamLimitExceeded, l1)
                   else Returns (None, l1)))"

definition CheckDomainStreamLimit ::
  "Limiter \<Rightarrow> string \<Rightarrow> (quota_error option \<times> Limiter) outcome" where
  "CheckDomainStreamLimit l domain =
     bind_outcome (RLock (l_domainMu l)) (\<lambda>mu.
       let found = l_domainLimits l domain
       in bind_outcome (RUnlock mu) (\<lambda>mu'.
            let l1 = l\<lparr>l_domainMu := mu'\<rparr>
            in case found of
                 None \<Rightarrow> Returns (None, l1)
               | Some limit \<Rightarrow>
                   if sint (dl_MaxStreams limit) \<le> sint (dl_CurrentStreams limit)
                   then Returns (Some ErrDomainStreamLimitExceeded, l1)
                   else Returns (None, l1)))"

definition CheckAgentRateLimit ::
  "Limiter \<Rightarrow> string \<Rightarrow> Time \<Rightarrow> (quota_error option \<times> Limiter) outcome" where
  "CheckAgentRateLimit l agentID now =
     bind_outcome (RLock (l_agentMu l)) (\<lambda>mu.
       let found = l_agentLimits l agentID
       in bind_outcome (RUnlock mu) (\<lambda>mu'.
            let l1 = l\<lparr>l_agentMu := mu'\<rparr>
            in case found of
                 None \<Rightarrow> Returns (None, l1)
               | Some limit \<Rightarrow>
                   (case Allow (al_TokenBucket limit) now of
                      (ok, tb) \<Rightarrow>
                        let l2 = l1\<lparr>l_agentLimits :=
                                   (l_agentLimits l1)(agentID \<mapsto> limit\<lparr>al_TokenBucket := tb\<rparr>)\<rparr>
                        in if \<not> ok then Returns (Some ErrAgentRateLimitExceeded, l2)
                           else Returns (None, l2))))"

definition CheckDomainRateLimit ::
  "Limiter \<Rightarrow> string \<Rightarrow> Time \<Rightarrow> (quota_error option \<times> Limiter) outcome" where
  "CheckDomainRateLimit l domain now =
     bind_outcome (RLock (l_domainMu l)) (\<lambda>mu.
       let found = l_domainLimits l domain
       in bind_outcome (RUnlock mu) (\<lambda>mu'.
            let l1 = l\<lparr>l_domainMu := mu'\<rparr>
            in case found of
                 None \<Rightarrow> Returns (None, l1)
               | Some limit \<Rightarrow>
                   (case Allow (dl_TokenBucket limit) now of
                      (ok, tb) \<Rightarrow>
                        let l2 = l1\<lparr>l_domainLimits :=
                                   (l_domainLimits l1)(domain \<mapsto> limit\<lparr>dl_TokenBucket := tb\<rparr>)\<rparr>
                        in if \<not> ok then Returns (Some ErrDomainRateLimitExceeded, l2)
                           else Returns (None, l2))))"

definition AcquireStream ::
  "Limiter \<Rightarrow> string \<Rightarrow> string \<Rightarrow> (quota_error option \<times> Limiter) outcome" where
  "AcquireStream l agentID domain =
     bind_outcome (CheckAgentStreamLimit l agentID) (\<lambda>(err1, l1).
       case err1 of
         Some e \<Rightarrow> Returns (Some e, l1)
       | None \<Rightarrow>
     bind_outcome (CheckDomainStreamLimit l1 domain) (\<lambda>(err2, l2).
       case err2 of
         Some e \<Rightarrow> Returns (Some e, l2)
       | None \<Rightarrow>
     bind_outcome (Lock (l_agentMu l2)) (\<lambda>amu.
       let l3 = (case l_agentLimits l2 agentID of
                   Some limit \<Rightarrow>
                     l2\<lparr>l_agentLimits := (l_agentLimits l2)(agentID \<mapsto>
                          limit\<lparr>al_CurrentStreams := al_CurrentStreams limit + 1\<rparr>)\<rparr>
                 | None \<Rightarrow> l2)
       in
     bind_outcome (Unlock amu) (\<lambda>amu'.
       let l4 = l3\<lparr>l_agentMu := amu'\<rparr>
       in
     bind_outcome (Lock (l_domainMu l4)) (\<lambda>dmu.
       let l5 = (case l_domainLimits l4 domain of
                   Some limit \<Rightarrow>
                     l4\<lparr>l_domainLimits := (l_domainLimits l4)(domain \<mapsto>
                          limit\<lparr>dl_CurrentStreams := dl_CurrentStreams limit + 1\<rparr>)\<rparr>
                 | None \<Rightarrow> l4)
       in
     bind_outcome (Unlock dmu) (\<lambda>dmu'.
       Returns (None, l5\<lparr>l_domainMu := dmu'\<rparr>)))))))"

definition ReleaseStream :: "Limiter \<Rightarrow> string \<Rightarrow> string \<Rightarrow> Limiter outcome" where
  "ReleaseStream l agentID domain =
     bind_outcome (Lock (l_agentMu l)) (\<lambda>amu.
       let l1 = (case l_agentLimits l agentID of
                   Some limit \<Rightarrow>
                     if 0 < sint (al_CurrentStreams limit)
                     then l\<lparr>l_agentLimits := (l_agentLimits l)(agentID \<mapsto>
                            limit\<lparr>al_CurrentStreams := al_CurrentStreams limit - 1\<rparr>)\<rparr>
                     else l
                 | None \<Rightarrow> l)
       in
     bind_outcome (Unlock amu) (\<lambda>amu'.
       let l2 = l1\<lparr>l_agentMu := amu'\<rparr>
       in
     bind_outcome (Lock (l_domainMu l2)) (\<lambda>dmu.
       let l3 = (case l_domainLimits l2 domain of
                   Some limit \<Rightarrow>
                     if 0 < sint (dl_CurrentStreams limit)
                     then l2\<lparr>l_domainLimits := (l_domainLimits l2)(domain \<mapsto>
                            limit\<lparr>dl_CurrentStreams := dl_CurrentStreams limit - 1\<rparr>)\<rparr>
                     else l2
                 | None \<Rightarrow> l2)
       in
     bind_outcome (Unlock dmu) (\<lambda>dmu'.
       Returns (l3\<lparr>l_domainMu := dmu'\<rparr>)))))"

text \<open>\<open>CheckRequest\<close> reads the clock in each of its two \<open>Allow\<close> calls.\<close>

definition CheckRequest ::
  "Limiter \<Rightarrow> string \<Rightarrow> string \<Rightarrow> Time \<Rightarrow> Time \<Rightarrow> (quota_error option \<times> Limiter) outcome" where
  "CheckRequest l agentID domain now1 now2 =
     bind_outcome (CheckAgentRateLimit l agentID now1) (\<lambda>(err1, l1).
       case err1 of
         Some e \<Rightarrow> Returns (Some e, l1)
       | None \<Rightarrow>
     bind_outcome (CheckDomainRateLimit l1 domain now2) (\<lambda>(err2, l2).
       case err2 of
         Some e \<Rightarrow> Returns (Some e, l2)
       | None \<Rightarrow>
     bind_outcome (CheckAgentStreamLimit l2 agentID) (\<lambda>(err3, l3).
       case err3 of
         Some e \<Rightarrow> Returns (Some e, l3)
       | None \<Rightarrow>
     bind_outcome (CheckDomainStreamLimit l3 domain) (\<lambda>(err4, l4).
       case err4 of
         Some e \<Rightarrow> Returns (Some e, l4)
       | None \<Rightarrow> Returns (None, l4)))))"

text \<open>
  \<open>GetAgentLimit\<close> takes the read lock and defers \<open>RUnlock\<close>; \<open>GetDomainLimit\<close> takes the
  read lock and defers \<open>Unlock\<close>. The deferred call runs after the result is computed and
  before the caller has it.
\<close>

definition GetAgentLimit ::
  "Limiter \<Rightarrow> string \<Rightarrow> (AgentLimit option \<times> Limiter) outcome" where
  "GetAgentLimit l agentID =
     bind_outcome (RLock (l_agentMu l)) (\<lambda>mu.
       let found = l_agentLimits l agentID
       in bind_outcome (RUnlock mu) (\<lambda>mu'. Returns (found, l\<lparr>l_agentMu := mu'\<rparr>)))"

definition GetDomainLimit ::
  "Limiter \<Rightarrow> string \<Rightarrow> (DomainLimit option \<times> Limiter) outcome" where
  "GetDomainLimit l domain =
     bind_outcome (RLock (l_domainMu l)) (\<lambda>mu.
       let found = l_domainLimits l domain
       in bind_outcome (Unlock mu) (\<lambda>mu'. Returns (found, l\<lparr>l_domainMu := mu'\<rparr>)))"

definition ResetAgentLimits :: "Limiter \<Rightarrow> string \<Rightarrow> Time \<Rightarrow> Time \<Rightarrow> Limiter outcome" where
  "ResetAgentLimits l agentID now1 now2 =
     bind_outcome (Lock (l_agentMu l)) (\<lambda>mu.
       let l1 = (case l_agentLimits l agentID of
                   Some limit \<Rightarrow>
                     l\<lparr>l_agentLimits := (l_agentLimits l)(agentID \<mapsto>
                         limit\<lparr>al_CurrentStreams := 0,
                               al_TokenBucket :=
                                 NewTokenBucket (al_RateLimit limit) (al_RateLimit limit) now1,
                               al_LastReset := now2\<rparr>)\<rparr>
                 | None \<Rightarrow> l)
       in bind_outcome (Unlock mu) (\<lambda>mu'. Returns (l1\<lparr>l_agentMu := mu'\<rparr>)))"

definition ResetDomainLimits :: "Limiter \<Rightarrow> string \<Rightarrow> Time \<Rightarrow> Time \<Rightarrow> Limiter outcome" where
  "ResetDomainLimits l domain now1 now2 =
     bind_outcome (Lock (l_domainMu l)) (\<lambda>mu.
       let l1 = (case l_domainLimits l domain of
                   Some limit \<Rightarrow>
                     l\<lparr>l_domainLimits := (l_domainLimits l)(domain \<mapsto>
                         limit\<lparr>dl_CurrentStreams := 0,
                               dl_TokenBucket :=
                                 NewTokenBucket (dl_RateLimit limit) (dl_RateLimit limit) now1,
                               dl_LastReset := now2\<rparr>)\<rparr>
                 | None \<Rightarrow> l)
       in bind_outcome (Unlock mu) (\<lambda>mu'. Returns (l1\<lparr>l_domainMu := mu'\<rparr>)))"

text \<open>The operations of the limiter, and a call of one of them for its effect on the state.\<close>

datatype limiter_op =
    OpSetAgentLimit string go_int "64 word" go_int Time Time
  | OpSetDomainLimit string go_int go_int Time Time
  | OpCheckAgentStreamLimit string
  | OpCheckDomainStreamLimit string
  | OpCheckAgentRateLimit string Time
  | OpCheckDomainRateLimit string Time
  | OpAcquireStream string string
  | OpReleaseStream string string
  | OpCheckRequest string string Time Time
  | OpGetAgentLimit string
  | OpGetDomainLimit string
  | OpResetAgentLimits string Time Time
  | OpResetDomainLimits string Time Time

definition state_of :: "('a \<times> Limiter) outcome \<Rightarrow> Limiter outcome" where
  "state_of r = bind_outcome r (\<lambda>(x, l). Returns l)"

fun limiter_call :: "Limiter \<Rightarrow> limiter_op \<Rightarrow> Limiter outcome" where
  "limiter_call l (OpSetAgentLimit a ms bw rl t1 t2) = SetAgentLimit l a ms bw rl t1 t2"
| "limiter_call l (OpSetDomainLimit d ms rl t1 t2) = SetDomainLimit l d ms rl t1 t2"
| "limiter_call l (OpCheckAgentStreamLimit a) = state_of (CheckAgentStreamLimit l a)"
| "limiter_call l (OpCheckDomainStreamLimit d) = state_of (CheckDomainStreamLimit l d)"
| "limiter_call l (OpCheckAgentRateLimit a t) = state_of (CheckAgentRateLimit l a t)"
| "limiter_call l (OpCheckDomainRateLimit d t) = state_of (CheckDomainRateLimit l d t)"
| "limiter_call l (OpAcquireStream a d) = state_of (AcquireStream l a d)"
| "limiter_call l (OpReleaseStream a d) = ReleaseStream l a d"
| "limiter_call l (OpCheckRequest a d t1 t2) = state_of (CheckRequest l a d t1 t2)"
| "limiter_call l (OpGetAgentLimit a) = state_of (GetAgentLimit l a)"
| "limiter_call l (OpGetDomainLimit d) = state_of (GetDomainLimit l d)"
| "limiter_call l (OpResetAgentLimits a t1 t2) = ResetAgentLimits l a t1 t2"
| "limiter_call l (OpResetDomainLimits d t1 t2) = ResetDomainLimits l d t1 t2"

text \<open>A run of calls, one after the other; it stops where a call does not return.\<close>

fun limiter_run :: "Limiter \<Rightarrow> limiter_op list \<Rightarrow> Limiter outcome" where
  "limiter_run l [] = Returns l"
| "limiter_run l (x # xs) = bind_outcome (limiter_call l x) (\<lambda>l'. limiter_run l' xs)"

definition mutexes_free :: "Limiter \<Rightarrow> bool" where
  "mutexes_free l = (l_agentMu l = unlocked \<and> l_domainMu l = unlocked)"

definition counters_nonneg :: "Limiter \<Rightarrow> bool" where
  "counters_nonneg l =
     ((\<forall>a limit. l_agentLimits l a = Some limit \<longrightarrow> 0 \<le> sint (al_CurrentStreams limit)) \<and>
      (\<forall>d limit. l_domainLimits l d = Some limit \<longrightarrow> 0 \<le> sint (dl_CurrentStreams limit)))"

section \<open>registry: tunnels by domain and by connection (tunnel.go)\<close>

datatype registry_error = ErrDomainMismatch | ErrDomainAlreadyRegistered | ErrTunnelNotFound

type_synonym metadata = "(string \<times> string) list option"

record Tunnel =
  t_Domain :: string
  t_Subdomain :: string
  t_FullDomain :: string
  t_ConnectionID :: string
  t_AgentID :: string
  t_CreatedAt :: Time
  t_LastAccess :: Time
  t_Metadata :: metadata

text \<open>
  Both maps of the registry hold pointers to the same \<open>Tunnel\<close> objects, and
  \<open>RegisterTunnel\<close> writes through such a pointer. The objects live in a store from
  addresses to tunnels, \<open>r_objects\<close>; \<open>r_fresh\<close> is the address of the next object that
  \<open>&Tunnel{...}\<close> allocates. The entry of \<open>connTunnels\<close> for a connection is a map from
  domains to tunnels that \<open>UnregisterConnectionTunnels\<close> ranges over: an association list.
\<close>

type_synonym addr = nat

record Registry =
  r_objects :: "addr \<Rightarrow> Tunnel"
  r_fresh :: addr
  r_tunnels :: "string \<rightharpoonup> addr"
  r_connTunnels :: "string \<rightharpoonup> (string \<times> addr) list"
  r_baseDomain :: string

definition no_tunnel :: Tunnel where
  "no_tunnel = \<lparr>t_Domain = [], t_Subdomain = [], t_FullDomain = [], t_ConnectionID = [],
                t_AgentID = [], t_CreatedAt = 0, t_LastAccess = 0, t_Metadata = None\<rparr>"

definition NewRegistry :: "string \<Rightarrow> Registry" where
  "NewRegistry baseDomain =
     \<lparr>r_objects = (\<lambda>p. no_tunnel), r_fresh = 0, r_tunnels = Map.empty,
      r_connTunnels = Map.empty, r_baseDomain = baseDomain\<rparr>"

definition buildFullDomain :: "Registry \<Rightarrow> string \<Rightarrow> string" where
  "buildFullDomain r subdomain =
     (if subdomain = [] then r_baseDomain r else subdomain @ ''.'' @ r_baseDomain r)"

text \<open>
  \<open>RegisterTunnel\<close> reads the clock once when the domain is registered already (\<open>now1\<close>)
  and twice for a new tunnel (\<open>CreatedAt = now1\<close>, \<open>LastAccess = now2\<close>).
\<close>

definition RegisterTunnel ::
  "Registry \<Rightarrow> string \<Rightarrow> string \<Rightarrow> string \<Rightarrow> string \<Rightarrow> metadata \<Rightarrow> Time \<Rightarrow> Time
     \<Rightarrow> (registry_error + addr) \<times> Registry" where
  "RegisterTunnel r domain subdomain connectionID agentID md now1 now2 =
     (let fullDomain = buildFullDomain r subdomain
      in if domain \<noteq> [] \<and> domain \<noteq> fullDomain then (Inl ErrDomainMismatch, r)
         else
           case r_tunnels r fullDomain of
             Some p \<Rightarrow>
               let existing = r_objects r p
               in if t_ConnectionID existing \<noteq> connectionID
                  then (Inl ErrDomainAlreadyRegistered, r)
                  else (Inr p, r\<lparr>r_objects := (r_objects r)
                                  (p := existing\<lparr>t_Metadata := md, t_LastAccess := now1\<rparr>)\<rparr>)
           | None \<Rightarrow>
               let p = r_fresh r;
                   tunnel = \<lparr>t_Domain = domain, t_Subdomain = subdomain,
                             t_FullDomain = fullDomain, t_ConnectionID = connectionID,
                             t_AgentID = agentID, t_CreatedAt = now1, t_LastAccess = now2,
                             t_Metadata = md\<rparr>;
                   r1 = r\<lparr>r_objects := (r_objects r)(p := tunnel), r_fresh := p + 1,
                          r_tunnels := (r_tunnels r)(fullDomain \<mapsto> p)\<rparr>;
                   entry = (case r_connTunnels r1 connectionID of None \<Rightarrow> [] | Some m \<Rightarrow> m)
               in (Inr p, r1\<lparr>r_connTunnels := (r_connTunnels r1)
                                (connectionID \<mapsto> AList.update fullDomain p entry)\<rparr>))"

text \<open>
  \<open>GetTunnel\<close> returns the pointer found and, when there is one, starts a goroutine that
  sets \<open>LastAccess\<close>; \<open>GetTunnel_touch\<close> is that goroutine, run at the later instant \<open>now\<close>.
\<close>

definition GetTunnel :: "Registry \<Rightarrow> string \<Rightarrow> addr option" where
  "GetTunnel r domain = r_tunnels r domain"

definition GetTunnel_touch :: "Registry \<Rightarrow> string \<Rightarrow> Time \<Rightarrow> Registry" where
  "GetTunnel_touch r domain now =
     (case r_tunnels r domain of
        Some p \<Rightarrow> r\<lparr>r_objects := (r_objects r)(p := (r_objects r p)\<lparr>t_LastAccess := now\<rparr>)\<rparr>
      | None \<Rightarrow> r)"

definition UnregisterTunnel :: "Registry \<Rightarrow> string \<Rightarrow> registry_error option \<times> Registry" where
  "UnregisterTunnel r domain =
     (case r_tunnels r domain of
        None \<Rightarrow> (Some ErrTunnelNotFound, r)
      | Some p \<Rightarrow>
          let tunnel = r_objects r p;
              r1 = r\<lparr>r_tunnels := (r_tunnels r)(domain := None)\<rparr>
          in case r_connTunnels r1 (t_ConnectionID tunnel) of
               None \<Rightarrow> (None, r1)
             | Some m \<Rightarrow>
                 let m' = AList.delete domain m
                 in if length m' = 0
                    then (None, r1\<lparr>r_connTunnels :=
                                      (r_connTunnels r1)(t_ConnectionID tunnel := None)\<rparr>)
                    else (None, r1\<lparr>r_connTunnels :=
                                      (r_connTunnels r1)(t_ConnectionID tunnel \<mapsto> m')\<rparr>))"

text \<open>The loop of \<open>UnregisterConnectionTunnels\<close> over the domains it has copied.\<close>

fun unregister_each :: "Registry \<Rightarrow> string list \<Rightarrow> Registry" where
  "unregister_each r [] = r"
| "unregister_each r (domain # domains) = unregister_each (snd (UnregisterTunnel r domain)) domains"

text \<open>
  \<open>UnregisterConnectionTunnels\<close> copies the keys of the connection's entry in the order
  \<open>range\<close> yields them, which Go leaves open: the argument \<open>domains\<close> is that copy.
\<close>

definition UnregisterConnectionTunnels :: "Registry \<Rightarrow> string \<Rightarrow> string list \<Rightarrow> Registry" where
  "UnregisterConnectionTunnels r connectionID domains =
     (case r_connTunnels r connectionID of
        None \<Rightarrow> r
      | Some m \<Rightarrow> unregister_each r domains)"

text \<open>A copy of the keys that \<open>range\<close> can yield: each key of the entry once.\<close>

definition range_order :: "Registry \<Rightarrow> string \<Rightarrow> string list \<Rightarrow> bool" where
  "range_order r connectionID domains =
     (case r_connTunnels r connectionID of
        None \<Rightarrow> True
      | Some m \<Rightarrow> distinct domains \<and> set domains = set (map fst m))"

datatype registry_op =
    OpRegisterTunnel string string string string metadata Time Time
  | OpGetTunnel string Time
  | OpUnregisterTunnel string
  | OpUnregisterConnectionTunnels string "string list"

fun registry_call :: "Registry \<Rightarrow> registry_op \<Rightarrow> Registry" where
  "registry_call r (OpRegisterTunnel domain subdomain connectionID agentID md now1 now2) =
     snd (RegisterTunnel r domain subdomain connectionID agentID md now1 now2)"
| "registry_call r (OpGetTunnel domain now) = GetTunnel_touch r domain now"
| "registry_call r (OpUnregisterTunnel domain) = snd (UnregisterTunnel r domain)"
| "registry_call r (OpUnregisterConnectionTunnels connectionID domains) =
     UnregisterConnectionTunnels r connectionID domains"

fun registry_run :: "Registry \<Rightarrow> registry_op list \<Rightarrow> Registry" where
  "registry_run r [] = r"
| "registry_run r (x # xs) = registry_run (registry_call r x) xs"

text \<open>
  The two indices agree: a domain of the forward map is, with the same tunnel, in the
  reverse entry of that tunnel's connection; and a domain of a connection's reverse entry
  is, with the same tunnel, in the forward map, and the tunnel is of that connection.
\<close>

definition registry_consistent :: "Registry \<Rightarrow> bool" where
  "registry_consistent r =
     ((\<forall>d p. r_tunnels r d = Some p \<longrightarrow>
          (\<exists>m. r_connTunnels r (t_ConnectionID (r_objects r p)) = Some m \<and> map_of m d = Some p)) \<and>
      (\<forall>c m d p. r_connTunnels r c = Some m \<and> map_of m d = Some p \<longrightarrow>
          r_tunnels r d = Some p \<and> t_ConnectionID (r_objects r p) = c))"

section \<open>The frames of the protocol package\<close>

text \<open>
  Modelled from the spec: the package \<open>tunnel-protocol/go/v1\<close> (the \<open>Frame\<close> struct, its
  type and flag constants, \<open>IsControlFrame\<close>, \<open>IsEndStream\<close>, \<open>Encode\<close> and \<open>Decode\<close>) is not
  among the sources. Section 6 of the specification gives a frame the fields \<open>version\<close>,
  \<open>type\<close>, \<open>flags\<close>, \<open>stream_id\<close> and \<open>payload\<close>, the types \<open>AUTH\<close>, \<open>HEARTBEAT\<close>, \<open>CLOSE\<close>,
  \<open>OPEN_STREAM\<close> and \<open>DATA\<close>, and the flags \<open>NONE\<close>, \<open>END_STREAM\<close> and \<open>ACK\<close>; "stream id 0
  denotes a control frame". \<open>FrameOther\<close> stands for every other value of the type byte.
  What \<open>Encode\<close> and \<open>Decode\<close> do on the socket is an input of the model: the error or
  success of each \<open>Encode\<close>, and the frames and the read error the reader goroutine
  delivers.
\<close>

datatype FrameType =
  FrameAuth | FrameHeartbeat | FrameClose | FrameOpenStream | FrameData | FrameOther nat

datatype FrameFlag = FlagNone | FlagEndStream | FlagAck

record Frame =
  f_Version :: "8 word"
  f_Type :: FrameType
  f_Flags :: FrameFlag
  f_StreamID :: u32
  f_Payload :: bytes

definition IsControlFrame :: "Frame \<Rightarrow> bool" where
  "IsControlFrame f = (f_StreamID f = 0)"

definition IsEndStream :: "Frame \<Rightarrow> bool" where
  "IsEndStream f = (f_Flags f = FlagEndStream)"

section \<open>connection: connections and their streams\<close>

datatype conn_error =
    ErrMaxConnections
  | ErrConnectionExists
  | ErrConnectionNotFound
  | ErrConnectionClosed
  | ErrConnectionClosedByAgent
  | ErrStreamExists
  | ErrStreamNotFound
  | ErrStreamClosed
  | ErrInvalidControlFrame
  | ErrInvalidStreamFrame
  | ContextCanceled
  | EncodeError string

datatype StreamState =
  StreamStateInit | StreamStateOpen | StreamStateData | StreamStateClosed | StreamStateError

text \<open>
  A channel is the list of the values queued in it (\<open>dataIn\<close> and \<open>dataOut\<close> have room for
  10 values); the channel \<open>closeCh\<close> carries no value and is only ever closed:
  \<open>s_closeCh\<close> says whether it is.
\<close>

record Stream =
  s_ID :: u32
  s_State :: StreamState
  s_CreatedAt :: Time
  s_Metadata :: "(string \<times> string) list"
  s_dataIn :: "bytes list"
  s_dataOut :: "bytes list"
  s_closeCh :: bool

text \<open>
  The stream table maps an id to a pointer to a \<open>Stream\<close>; the router keeps such a pointer
  after the table has dropped it. The streams of a connection live in the store
  \<open>c_objects\<close>, and \<open>c_fresh\<close> is the address of the next one that \<open>&Stream{...}\<close> allocates.
  The table is an association list (\<open>Close\<close> ranges over it). \<open>c_cancelled\<close> says whether
  \<open>cancel\<close> was called, so that \<open>ctx.Done()\<close> is closed. Of the socket \<open>Conn\<close> the model
  keeps the frames encoded to it and whether \<open>Conn.Close\<close> was called.
\<close>

record Connection =
  c_ID :: string
  c_AgentID :: string
  c_Metadata :: metadata
  c_CreatedAt :: Time
  c_LastHeartbeat :: Time
  c_objects :: "addr \<Rightarrow> Stream"
  c_fresh :: addr
  c_streams :: "(u32 \<times> addr) list"
  c_streamsMu :: RWMutex
  c_nextStreamID :: u32
  c_cancelled :: bool
  c_closed :: bool
  c_closedMu :: RWMutex
  c_sent :: "Frame list"
  c_Conn_closed :: bool

definition no_stream :: Stream where
  "no_stream = \<lparr>s_ID = 0, s_State = StreamStateInit, s_CreatedAt = 0, s_Metadata = [],
                s_dataIn = [], s_dataOut = [], s_closeCh = False\<rparr>"

definition setState :: "Stream \<Rightarrow> StreamState \<Rightarrow> Stream" where
  "setState s st = s\<lparr>s_State := st\<rparr>"

definition createStream :: "Connection \<Rightarrow> u32 \<Rightarrow> Time \<Rightarrow> (addr \<times> Connection) outcome" where
  "createStream c streamID now =
     bind_outcome (Lock (c_streamsMu c)) (\<lambda>mu.
       let p = c_fresh c;
           stream = \<lparr>s_ID = streamID, s_State = StreamStateInit, s_CreatedAt = now,
                     s_Metadata = [], s_dataIn = [], s_dataOut = [], s_closeCh = False\<rparr>;
           c1 = c\<lparr>c_objects := (c_objects c)(p := stream), c_fresh := p + 1,
                  c_streams := AList.update streamID p (c_streams c)\<rparr>
       in bind_outcome (Unlock mu) (\<lambda>mu'. Returns (p, c1\<lparr>c_streamsMu := mu'\<rparr>)))"

text \<open>
  \<open>closeStream\<close> takes the write lock of \<open>streamsMu\<close> itself. Closing a channel that is
  closed already is a run-time panic.
\<close>

definition closeStream :: "Connection \<Rightarrow> u32 \<Rightarrow> Connection outcome" where
  "closeStream c streamID =
     bind_outcome (Lock (c_streamsMu c)) (\<lambda>mu.
       case map_of (c_streams c) streamID of
         None \<Rightarrow> bind_outcome (Unlock mu) (\<lambda>mu'. Returns (c\<lparr>c_streamsMu := mu'\<rparr>))
       | Some p \<Rightarrow>
           if s_closeCh (c_objects c p) then Fatal
           else
             let c1 = c\<lparr>c_objects := (c_objects c)(p := (c_objects c p)\<lparr>s_closeCh := True\<rparr>),
                        c_streams := AList.delete streamID (c_streams c)\<rparr>
             in bind_outcome (Unlock mu) (\<lambda>mu'. Returns (c1\<lparr>c_streamsMu := mu'\<rparr>)))"

definition GetStream :: "Connection \<Rightarrow> u32 \<Rightarrow> (addr option \<times> Connection) outcome" where
  "GetStream c streamID =
     bind_outcome (RLock (c_streamsMu c)) (\<lambda>mu.
       let found = map_of (c_streams c) streamID
       in bind_outcome (RUnlock mu) (\<lambda>mu'. Returns (found, c\<lparr>c_streamsMu := mu'\<rparr>)))"

definition AllocateStreamID :: "Connection \<Rightarrow> (u32 \<times> Connection) outcome" where
  "AllocateStreamID c =
     bind_outcome (Lock (c_streamsMu c)) (\<lambda>mu.
       let streamID = c_nextStreamID c;
           c1 = c\<lparr>c_nextStreamID := c_nextStreamID c + 1\<rparr>
       in bind_outcome (Unlock mu) (\<lambda>mu'. Returns (streamID, c1\<lparr>c_streamsMu := mu'\<rparr>)))"

text \<open>
  \<open>SendFrame\<close>: \<open>encoded\<close> is what \<open>v1.Encode\<close> returns for this frame on this socket,
  \<open>None\<close> when the frame was written.
\<close>

definition SendFrame ::
  "Connection \<Rightarrow> Frame \<Rightarrow> conn_error option \<Rightarrow> (conn_error option \<times> Connection) outcome" where
  "SendFrame c frame encoded =
     bind_outcome (RLock (c_closedMu c)) (\<lambda>mu.
       if c_closed c
       then bind_outcome (RUnlock mu) (\<lambda>mu'.
              Returns (Some ErrConnectionClosed, c\<lparr>c_closedMu := mu'\<rparr>))
       else bind_outcome (RUnlock mu) (\<lambda>mu'.
              let c1 = c\<lparr>c_closedMu := mu'\<rparr>
              in case encoded of
                   None \<Rightarrow> Returns (None, c1\<lparr>c_sent := c_sent c1 @ [frame]\<rparr>)
                 | Some e \<Rightarrow> Returns (Some e, c1)))"

text \<open>
  The loop of \<open>Close\<close> over the stream table, run while \<open>Close\<close> holds the write lock of
  \<open>streamsMu\<close>: \<open>streamIDs\<close> are the keys as \<open>range\<close> yields them.
\<close>

fun close_each :: "Connection \<Rightarrow> u32 list \<Rightarrow> Connection outcome" where
  "close_each c [] = Returns c"
| "close_each c (streamID # streamIDs) =
     bind_outcome (closeStream c streamID) (\<lambda>c'. close_each c' streamIDs)"

text \<open>\<open>Close\<close>; the error of \<open>Conn.Close\<close>, its result, is not modelled (no caller reads it).\<close>

definition Close :: "Connection \<Rightarrow> Connection outcome" where
  "Close c =
     bind_outcome (Lock (c_closedMu c)) (\<lambda>mu.
       if c_closed c
       then bind_outcome (Unlock mu) (\<lambda>mu'. Returns (c\<lparr>c_closedMu := mu'\<rparr>))
       else
         let c1 = c\<lparr>c_closed := True\<rparr>
         in bind_outcome (Unlock mu) (\<lambda>mu'.
              let c2 = c1\<lparr>c_closedMu := mu', c_cancelled := True\<rparr>
              in bind_outcome (Lock (c_streamsMu c2)) (\<lambda>smu.
                   let c3 = c2\<lparr>c_streamsMu := smu\<rparr>
                   in bind_outcome (close_each c3 (map fst (c_streams c3))) (\<lambda>c4.
                        bind_outcome (Unlock (c_streamsMu c4)) (\<lambda>smu'.
                          Returns (c4\<lparr>c_streamsMu := smu', c_Conn_closed := True\<rparr>))))))"

definition updateHeartbeat :: "Connection \<Rightarrow> Time \<Rightarrow> Connection outcome" where
  "updateHeartbeat c now =
     bind_outcome (Lock (c_closedMu c)) (\<lambda>mu.
       let c1 = c\<lparr>c_LastHeartbeat := now\<rparr>
       in bind_outcome (Unlock mu) (\<lambda>mu'. Returns (c1\<lparr>c_closedMu := mu'\<rparr>)))"

section \<open>connection: the manager and the frame loop\<close>

text \<open>
  A callback of the manager is a Go function value; the model keeps whether one is
  installed and the list of the calls made so far, oldest first.
\<close>

datatype callback_call =
    ConnectionClosed string
  | StreamCreated string u32
  | StreamClosed string u32

text \<open>
  The manager's map holds pointers to \<open>Connection\<close> objects, and the goroutine of a
  connection and the router hold such pointers too: the connections live in the store
  \<open>m_objects\<close>. The map is an association list (\<open>RegisterConnection\<close> takes its \<open>len\<close>).
\<close>

record Manager =
  m_objects :: "addr \<Rightarrow> Connection"
  m_fresh :: addr
  m_connections :: "(string \<times> addr) list"
  m_maxConnections :: go_int
  m_heartbeatTimeout :: Duration
  m_onConnectionClosed :: bool
  m_onStreamCreated :: bool
  m_onStreamClosed :: bool
  m_calls :: "callback_call list"

definition no_connection :: Connection where
  "no_connection =
     \<lparr>c_ID = [], c_AgentID = [], c_Metadata = None, c_CreatedAt = 0, c_LastHeartbeat = 0,
      c_objects = (\<lambda>p. no_stream), c_fresh = 0, c_streams = [], c_streamsMu = unlocked,
      c_nextStreamID = 0, c_cancelled = False, c_closed = False, c_closedMu = unlocked,
      c_sent = [], c_Conn_closed = False\<rparr>"

definition NewManager :: "go_int \<Rightarrow> Duration \<Rightarrow> Manager" where
  "NewManager maxConnections heartbeatTimeout =
     \<lparr>m_objects = (\<lambda>p. no_connection), m_fresh = 0, m_connections = [],
      m_maxConnections = maxConnections, m_heartbeatTimeout = heartbeatTimeout,
      m_onConnectionClosed = False, m_onStreamCreated = False, m_onStreamClosed = False,
      m_calls = []\<rparr>"

text \<open>
  \<open>RegisterConnection\<close> reads the clock for \<open>CreatedAt\<close> and for \<open>LastHeartbeat\<close>, and starts
  the goroutine \<open>handleConnection\<close> of the new connection, which is run below.
\<close>

definition RegisterConnection ::
  "Manager \<Rightarrow> string \<Rightarrow> string \<Rightarrow> metadata \<Rightarrow> Time \<Rightarrow> Time \<Rightarrow> (conn_error + addr) \<times> Manager" where
  "RegisterConnection m connID agentID md now1 now2 =
     (if sint (m_maxConnections m) \<le> int (length (m_connections m))
      then (Inl ErrMaxConnections, m)
      else
        case map_of (m_connections m) connID of
          Some q \<Rightarrow> (Inl ErrConnectionExists, m)
        | None \<Rightarrow>
            let p = m_fresh m;
                c = \<lparr>c_ID = connID, c_AgentID = agentID, c_Metadata = md, c_CreatedAt = now1,
                     c_LastHeartbeat = now2, c_objects = (\<lambda>p. no_stream), c_fresh = 0,
                     c_streams = [], c_streamsMu = unlocked, c_nextStreamID = 1,
                     c_cancelled = False, c_closed = False, c_closedMu = unlocked,
                     c_sent = [], c_Conn_closed = False\<rparr>
            in (Inr p, m\<lparr>m_objects := (m_objects m)(p := c), m_fresh := p + 1,
                          m_connections := AList.update connID p (m_connections m)\<rparr>))"

definition GetConnection :: "Manager \<Rightarrow> string \<Rightarrow> addr option" where
  "GetConnection m connID = map_of (m_connections m) connID"

definition SetOnConnectionClosed :: "Manager \<Rightarrow> Manager" where
  "SetOnConnectionClosed m = m\<lparr>m_onConnectionClosed := True\<rparr>"

definition SetOnStreamCreated :: "Manager \<Rightarrow> Manager" where
  "SetOnStreamCreated m = m\<lparr>m_onStreamCreated := True\<rparr>"

definition SetOnStreamClosed :: "Manager \<Rightarrow> Manager" where
  "SetOnStreamClosed m = m\<lparr>m_onStreamClosed := True\<rparr>"

text \<open>A call of a function of the connection at the address \<open>p\<close>, through the pointer.\<close>

definition on_connection ::
  "Manager \<Rightarrow> addr \<Rightarrow> (Connection \<Rightarrow> ('a \<times> Connection) outcome) \<Rightarrow> ('a \<times> Manager) outcome" where
  "on_connection m p f =
     bind_outcome (f (m_objects m p)) (\<lambda>(x, c'). Returns (x, m\<lparr>m_objects := (m_objects m)(p := c')\<rparr>))"

definition update_connection ::
  "Manager \<Rightarrow> addr \<Rightarrow> (Connection \<Rightarrow> Connection outcome) \<Rightarrow> Manager outcome" where
  "update_connection m p f =
     bind_outcome (f (m_objects m p)) (\<lambda>c'. Returns (m\<lparr>m_objects := (m_objects m)(p := c')\<rparr>))"

definition CloseConnection :: "Manager \<Rightarrow> string \<Rightarrow> (conn_error option \<times> Manager) outcome" where
  "CloseConnection m connID =
     (case map_of (m_connections m) connID of
        None \<Rightarrow> Returns (Some ErrConnectionNotFound, m)
      | Some p \<Rightarrow>
          let m1 = m\<lparr>m_connections := AList.delete connID (m_connections m)\<rparr>
          in bind_outcome (update_connection m1 p Close) (\<lambda>m2.
               if m_onConnectionClosed m2
               then Returns (None, m2\<lparr>m_calls := m_calls m2 @ [ConnectionClosed connID]\<rparr>)
               else Returns (None, m2)))"

definition handleControlFrame ::
  "Manager \<Rightarrow> addr \<Rightarrow> Frame \<Rightarrow> Time \<Rightarrow> (conn_error option \<times> Manager) outcome" where
  "handleControlFrame m p frame now =
     (case f_Type frame of
        FrameAuth \<Rightarrow>
          bind_outcome (update_connection m p (\<lambda>c. updateHeartbeat c now)) (\<lambda>m'. Returns (None, m'))
      | FrameHeartbeat \<Rightarrow>
          bind_outcome (update_connection m p (\<lambda>c. updateHeartbeat c now)) (\<lambda>m'. Returns (None, m'))
      | FrameClose \<Rightarrow> Returns (Some ErrConnectionClosedByAgent, m)
      | _ \<Rightarrow> Returns (Some ErrInvalidControlFrame, m))"

text \<open>
  A \<open>select\<close> takes one of its cases that are ready, and which one is the runtime's
  choice: \<open>ready\<close> lists the cases in the order of the source, \<open>pick\<close> is the choice. With
  no case ready the \<open>select\<close> waits.
\<close>

definition select_case :: "bool list \<Rightarrow> nat \<Rightarrow> nat option" where
  "select_case ready pick =
     (let enabled = filter (\<lambda>i. ready ! i) [0..<length ready]
      in if enabled = [] then None else Some (enabled ! (pick mod length enabled)))"

text \<open>
  The stream part of \<open>handleStreamFrame\<close> once the type of the frame is \<open>DATA\<close> and the
  stream was found at \<open>sp\<close>: the \<open>select\<close> over the send to \<open>dataIn\<close> (ready while fewer than
  10 payloads are queued), the stream's close signal and the connection's context, then
  the handling of \<open>END_STREAM\<close>.
\<close>

definition forward_data ::
  "Manager \<Rightarrow> addr \<Rightarrow> addr \<Rightarrow> Frame \<Rightarrow> nat \<Rightarrow> (conn_error option \<times> Manager) outcome" where
  "forward_data m p sp frame pick =
     (let c = m_objects m p;
          stream = c_objects c sp
      in case select_case [length (s_dataIn stream) < 10, s_closeCh stream, c_cancelled c] pick of
           None \<Rightarrow> Blocked
         | Some i \<Rightarrow>
             if i = 1 then Returns (Some ErrStreamClosed, m)
             else if i = 2 then Returns (Some ContextCanceled, m)
             else
               let c1 = c\<lparr>c_objects := (c_objects c)
                            (sp := stream\<lparr>s_dataIn := s_dataIn stream @ [f_Payload frame]\<rparr>)\<rparr>;
                   m1 = m\<lparr>m_objects := (m_objects m)(p := c1)\<rparr>
               in if IsEndStream frame
                  then
                    let c2 = c1\<lparr>c_objects := (c_objects c1)
                                 (sp := setState (c_objects c1 sp) StreamStateClosed)\<rparr>;
                        m2 = m1\<lparr>m_objects := (m_objects m1)(p := c2)\<rparr>
                    in bind_outcome (update_connection m2 p (\<lambda>c. closeStream c (f_StreamID frame)))
                         (\<lambda>m3. if m_onStreamClosed m3
                                then Returns (None, m3\<lparr>m_calls := m_calls m3 @
                                       [StreamClosed (c_ID (m_objects m3 p)) (f_StreamID frame)]\<rparr>)
                                else Returns (None, m3))
                  else Returns (None, m1))"

definition handleStreamFrame ::
  "Manager \<Rightarrow> addr \<Rightarrow> Frame \<Rightarrow> Time \<Rightarrow> nat \<Rightarrow> (conn_error option \<times> Manager) outcome" where
  "handleStreamFrame m p frame now pick =
     bind_outcome (on_connection m p (\<lambda>c.
         bind_outcome (Lock (c_streamsMu c)) (\<lambda>mu.
           let found = map_of (c_streams c) (f_StreamID frame)
           in bind_outcome (Unlock mu) (\<lambda>mu'. Returns (found, c\<lparr>c_streamsMu := mu'\<rparr>)))))
       (\<lambda>(found, m0).
          case f_Type frame of
            FrameOpenStream \<Rightarrow>
              (case found of
                 Some sp \<Rightarrow> Returns (Some ErrStreamExists, m0)
               | None \<Rightarrow>
                   bind_outcome (on_connection m0 p (\<lambda>c. createStream c (f_StreamID frame) now))
                     (\<lambda>(sp, m1).
                        if m_onStreamCreated m1
                        then Returns (None, m1\<lparr>m_calls := m_calls m1 @
                               [StreamCreated (c_ID (m_objects m1 p)) (f_StreamID frame)]\<rparr>)
                        else Returns (None, m1)))
          | FrameData \<Rightarrow>
              (case found of
                 None \<Rightarrow> Returns (Some ErrStreamNotFound, m0)
               | Some sp \<Rightarrow> forward_data m0 p sp frame pick)
          | FrameClose \<Rightarrow>
              (case found of
                 None \<Rightarrow> Returns (None, m0)
               | Some sp \<Rightarrow>
                   let c = m_objects m0 p;
                       c1 = c\<lparr>c_objects := (c_objects c)
                                (sp := setState (c_objects c sp) StreamStateClosed)\<rparr>;
                       m1 = m0\<lparr>m_objects := (m_objects m0)(p := c1)\<rparr>
                   in bind_outcome (update_connection m1 p (\<lambda>c. closeStream c (f_StreamID frame)))
                        (\<lambda>m2. if m_onStreamClosed m2
                               then Returns (None, m2\<lparr>m_calls := m_calls m2 @
                                      [StreamClosed (c_ID (m_objects m2 p)) (f_StreamID frame)]\<rparr>)
                               else Returns (None, m2)))
          | _ \<Rightarrow> Returns (Some ErrInvalidStreamFrame, m0))"

definition handleFrame ::
  "Manager \<Rightarrow> addr \<Rightarrow> Frame \<Rightarrow> Time \<Rightarrow> nat \<Rightarrow> (conn_error option \<times> Manager) outcome" where
  "handleFrame m p frame now pick =
     (if IsControlFrame frame then handleControlFrame m p frame now
      else handleStreamFrame m p frame now pick)"

text \<open>
  The loop of \<open>handleConnection\<close> is a \<open>select\<close> over the connection's context, the
  heartbeat ticker, the channel of the frames read and the channel of the read error. The
  reader goroutine and the ticker are the loop's environment: a run of the loop is given by
  the list of the cases its \<open>select\<close> takes, in order. \<open>TakeTicker now\<close> is a tick at the
  instant \<open>now\<close>; \<open>TakeFrame frame now pick\<close> is a frame read, handled at the instant \<open>now\<close>
  with the choice \<open>pick\<close> for the \<open>select\<close> of \<open>handleStreamFrame\<close>. The case of the context
  is ready only once the context is cancelled: elsewhere in the list it is passed over.
  The loop's result says whether the loop was left (\<open>True\<close>) or still waits in its \<open>select\<close>
  when the list is used up (\<open>False\<close>).
\<close>

datatype loop_case = TakeCtxDone | TakeTicker Time | TakeFrame Frame Time nat | TakeReadError

fun handleConnection_loop :: "Manager \<Rightarrow> addr \<Rightarrow> loop_case list \<Rightarrow> (bool \<times> Manager) outcome" where
  "handleConnection_loop m p [] = Returns (False, m)"
| "handleConnection_loop m p (TakeCtxDone # cases) =
     (if c_cancelled (m_objects m p) then Returns (True, m)
      else handleConnection_loop m p cases)"
| "handleConnection_loop m p (TakeTicker now # cases) =
     (if m_heartbeatTimeout m < now - c_LastHeartbeat (m_objects m p) then Returns (True, m)
      else handleConnection_loop m p cases)"
| "handleConnection_loop m p (TakeFrame frame now pick # cases) =
     bind_outcome (handleFrame m p frame now pick) (\<lambda>(err, m').
       if err \<noteq> None then Returns (True, m')
       else handleConnection_loop m' p cases)"
| "handleConnection_loop m p (TakeReadError # cases) = Returns (True, m)"

text \<open>\<open>handleConnection\<close>: the loop, and the deferred \<open>c.Close()\<close> once the loop is left.\<close>

definition handleConnection :: "Manager \<Rightarrow> addr \<Rightarrow> loop_case list \<Rightarrow> (bool \<times> Manager) outcome" where
  "handleConnection m p cases =
     bind_outcome (handleConnection_loop m p cases) (\<lambda>(left, m').
       if left
       then bind_outcome (update_connection m' p Close) (\<lambda>m''. Returns (True, m''))
       else Returns (False, m'))"

section \<open>router: an HTTP request over a stream (router.go)\<close>

text \<open>
  Of \<open>net/http\<close> the model keeps what the handler uses: the request's host, method, path,
  protocol, headers (in the order \<open>range\<close> yields them) and body, and a response writer
  that records the status of the first \<open>WriteHeader\<close> and the bytes written. \<open>http.Error\<close>
  writes the header with the given code and then the message and a newline.
\<close>

datatype body = NoBody | Body bytes | BodyError string

record Request =
  q_Host :: string
  q_Method :: string
  q_Path :: string
  q_Proto :: string
  q_Header :: "(string \<times> string list) list"
  q_Body :: body

record ResponseWriter =
  w_status :: "nat option"
  w_body :: bytes

definition new_writer :: ResponseWriter where
  "new_writer = \<lparr>w_status = None, w_body = []\<rparr>"

definition WriteHeader :: "ResponseWriter \<Rightarrow> nat \<Rightarrow> ResponseWriter" where
  "WriteHeader w code = (if w_status w = None then w\<lparr>w_status := Some code\<rparr> else w)"

definition Write :: "ResponseWriter \<Rightarrow> bytes \<Rightarrow> ResponseWriter" where
  "Write w b = (let w1 = WriteHeader w 200 in w1\<lparr>w_body := w_body w1 @ b\<rparr>)"

definition http_Error :: "ResponseWriter \<Rightarrow> string \<Rightarrow> nat \<Rightarrow> ResponseWriter" where
  "http_Error w msg code = Write (WriteHeader w code) (msg @ [CHR 0x0A])"

definition StatusOK :: nat where "StatusOK = 200"
definition StatusNoContent :: nat where "StatusNoContent = 204"
definition StatusBadRequest :: nat where "StatusBadRequest = 400"
definition StatusNotFound :: nat where "StatusNotFound = 404"
definition StatusTooManyRequests :: nat where "StatusTooManyRequests = 429"
definition StatusInternalServerError :: nat where "StatusInternalServerError = 500"
definition StatusServiceUnavailable :: nat where "StatusServiceUnavailable = 503"

text \<open>The errors of \<open>handleRequest\<close>, and their texts (\<open>err.Error()\<close>).\<close>

datatype router_error =
    FailedToSendOpenStream conn_error
  | StreamNotFoundAfterCreation
  | FailedToReadBody string
  | FailedToSendBody conn_error
  | FailedToSendEndStream conn_error
  | DeadlineExceeded

fun conn_error_text :: "conn_error \<Rightarrow> string" where
  "conn_error_text ErrMaxConnections = ''max connections reached''"
| "conn_error_text ErrConnectionExists = ''connection already exists''"
| "conn_error_text ErrConnectionNotFound = ''connection not found''"
| "conn_error_text ErrConnectionClosed = ''connection closed''"
| "conn_error_text ErrConnectionClosedByAgent = ''connection closed by agent''"
| "conn_error_text ErrStreamExists = ''stream already exists''"
| "conn_error_text ErrStreamNotFound = ''stream not found''"
| "conn_error_text ErrStreamClosed = ''stream closed''"
| "conn_error_text ErrInvalidControlFrame = ''invalid control frame''"
| "conn_error_text ErrInvalidStreamFrame = ''invalid stream frame''"
| "conn_error_text ContextCanceled = ''context canceled''"
| "conn_error_text (EncodeError msg) = msg"

fun quota_error_text :: "quota_error \<Rightarrow> string" where
  "quota_error_text ErrAgentStreamLimitExceeded = ''agent stream limit exceeded''"
| "quota_error_text ErrDomainStreamLimitExceeded = ''domain stream limit exceeded''"
| "quota_error_text ErrAgentRateLimitExceeded = ''agent rate limit exceeded''"
| "quota_error_text ErrDomainRateLimitExceeded = ''domain rate limit exceeded''"
| "quota_error_text ErrGlobalStreamLimitExceeded = ''global stream limit exceeded''"
| "quota_error_text ErrGlobalConnectionLimitExceeded = ''global connection limit exceeded''"

fun router_error_text :: "router_error \<Rightarrow> string" where
  "router_error_text (FailedToSendOpenStream e) =
     ''failed to send open stream frame: '' @ conn_error_text e"
| "router_error_text StreamNotFoundAfterCreation = ''stream not found after creation''"
| "router_error_text (FailedToReadBody msg) = ''failed to read request body: '' @ msg"
| "router_error_text (FailedToSendBody e) = ''failed to send request body: '' @ conn_error_text e"
| "router_error_text (FailedToSendEndStream e) =
     ''failed to send end stream frame: '' @ conn_error_text e"
| "router_error_text DeadlineExceeded = ''context deadline exceeded''"

text \<open>
  The router holds pointers to the registry, the connection manager and the limiter (which
  may be nil); the model keeps the three states in the router's record.
\<close>

record Router =
  rt_registry :: Registry
  rt_connManager :: Manager
  rt_limiter :: "Limiter option"
  rt_timeout :: Duration

definition NewRouter :: "Registry \<Rightarrow> Manager \<Rightarrow> Limiter option \<Rightarrow> Duration \<Rightarrow> Router" where
  "NewRouter reg connManager limiter timeout =
     \<lparr>rt_registry = reg, rt_connManager = connManager, rt_limiter = limiter,
      rt_timeout = timeout\<rparr>"

definition CRLF :: string where
  "CRLF = [CHR 0x0D, CHR 0x0A]"

definition buildRequestPayload :: "Request \<Rightarrow> bytes" where
  "buildRequestPayload req =
     q_Method req @ '' '' @ q_Path req @ '' '' @ q_Proto req @ CRLF
     @ concat (map (\<lambda>(key, vals). concat (map (\<lambda>v. key @ '': '' @ v @ CRLF) vals)) (q_Header req))
     @ CRLF"

text \<open>
  The loop of \<open>waitForResponse\<close> is a \<open>select\<close> over the request's context, the stream's
  \<open>dataIn\<close> and the stream's close signal; what the frame loop of the connection puts into
  the stream while the handler waits, and when the deadline passes, are the handler's
  environment. A run of the loop is given by the list of the cases its \<open>select\<close> takes:
  the context is done (the request's context has only its deadline, so \<open>ctx.Err()\<close> is
  \<open>context.DeadlineExceeded\<close>), a payload is received, \<open>dataIn\<close> is found closed, or the close
  signal has fired. When the list is used up the handler still waits.
\<close>

datatype wait_case = WaitCtxDone | WaitData bytes | WaitDataClosed | WaitCloseCh

fun waitForResponse_loop :: "bytes \<Rightarrow> wait_case list \<Rightarrow> (router_error + bytes) outcome" where
  "waitForResponse_loop responseData [] = Blocked"
| "waitForResponse_loop responseData (WaitCtxDone # cases) = Returns (Inl DeadlineExceeded)"
| "waitForResponse_loop responseData (WaitData d # cases) =
     waitForResponse_loop (responseData @ d) cases"
| "waitForResponse_loop responseData (WaitDataClosed # cases) = Returns (Inr responseData)"
| "waitForResponse_loop responseData (WaitCloseCh # cases) = Returns (Inr responseData)"

definition waitForResponse ::
  "ResponseWriter \<Rightarrow> wait_case list \<Rightarrow> (router_error option \<times> ResponseWriter) outcome" where
  "waitForResponse w cases =
     bind_outcome (waitForResponse_loop [] cases) (\<lambda>r.
       case r of
         Inl e \<Rightarrow> Returns (Some e, w)
       | Inr responseData \<Rightarrow>
           if 0 < length responseData
           then Returns (None, Write (WriteHeader w StatusOK) responseData)
           else Returns (None, WriteHeader w StatusNoContent))"

text \<open>
  What one request meets: the two clock readings of \<open>CheckRequest\<close>, what \<open>v1.Encode\<close>
  returns for the open frame, the body frame and the end frame, and the cases the \<open>select\<close>
  of \<open>waitForResponse\<close> takes.
\<close>

record RequestRun =
  x_now1 :: Time
  x_now2 :: Time
  x_encoded_open :: "conn_error option"
  x_encoded_body :: "conn_error option"
  x_encoded_end :: "conn_error option"
  x_wait :: "wait_case list"

text \<open>The protocol version constant \<open>v1.Version\<close>, not among the sources: version 1.\<close>

definition Version :: "8 word" where
  "Version = 1"

definition handleRequest ::
  "Manager \<Rightarrow> addr \<Rightarrow> u32 \<Rightarrow> ResponseWriter \<Rightarrow> Request \<Rightarrow> RequestRun
     \<Rightarrow> (router_error option \<times> ResponseWriter \<times> Manager) outcome" where
  "handleRequest m conn streamID w req run =
     (let requestData = buildRequestPayload req;
          openFrame = \<lparr>f_Version = Version, f_Type = FrameOpenStream, f_Flags = FlagNone,
                        f_StreamID = streamID, f_Payload = requestData\<rparr>
      in
      bind_outcome (on_connection m conn (\<lambda>c. SendFrame c openFrame (x_encoded_open run)))
        (\<lambda>(err, m1).
      case err of
        Some e \<Rightarrow> Returns (Some (FailedToSendOpenStream e), w, m1)
      | None \<Rightarrow>
      bind_outcome (on_connection m1 conn (\<lambda>c. GetStream c streamID)) (\<lambda>(stream, m2).
      case stream of
        None \<Rightarrow> Returns (Some StreamNotFoundAfterCreation, w, m2)
      | Some sp \<Rightarrow>
      bind_outcome
        (case q_Body req of
           NoBody \<Rightarrow> Returns (None, m2)
         | BodyError msg \<Rightarrow> Returns (Some (FailedToReadBody msg), m2)
         | Body b \<Rightarrow>
             if 0 < length b
             then
               let dataFrame = \<lparr>f_Version = Version, f_Type = FrameData, f_Flags = FlagNone,
                                 f_StreamID = streamID, f_Payload = b\<rparr>
               in bind_outcome (on_connection m2 conn (\<lambda>c. SendFrame c dataFrame (x_encoded_body run)))
                    (\<lambda>(err, m3).
                       case err of
                         Some e \<Rightarrow> Returns (Some (FailedToSendBody e), m3)
                       | None \<Rightarrow> Returns (None, m3))
             else Returns (None, m2))
        (\<lambda>(err, m3).
      case err of
        Some e \<Rightarrow> Returns (Some e, w, m3)
      | None \<Rightarrow>
      let endFrame = \<lparr>f_Version = Version, f_Type = FrameData, f_Flags = FlagEndStream,
                       f_StreamID = streamID, f_Payload = []\<rparr>
      in
      bind_outcome (on_connection m3 conn (\<lambda>c. SendFrame c endFrame (x_encoded_end run)))
        (\<lambda>(err, m4).
      case err of
        Some e \<Rightarrow> Returns (Some (FailedToSendEndStream e), w, m4)
      | None \<Rightarrow>
      bind_outcome (waitForResponse w (x_wait run)) (\<lambda>(err, w').
        Returns (err, w', m4)))))))"

text \<open>
  \<open>ServeHTTP\<close>. The three uses of the limiter stand under \<open>if r.limiter != nil\<close>:
  \<open>check_quota\<close>, \<open>acquire_quota\<close> and the deferred release. The goroutine that \<open>GetTunnel\<close> starts to set \<open>LastAccess\<close> runs beside the
  handler and is not part of it (\<open>GetTunnel_touch\<close>). The deferred \<open>ReleaseStream\<close> runs on
  every return after the stream quota was acquired; the deferred \<open>cancel\<close> of the request's
  context has no effect that the model keeps.
\<close>

definition check_quota ::
  "Limiter option \<Rightarrow> string \<Rightarrow> string \<Rightarrow> RequestRun
     \<Rightarrow> (quota_error option \<times> Limiter option) outcome" where
  "check_quota limiter agentID host run =
     (case limiter of
        None \<Rightarrow> Returns (None, None)
      | Some l \<Rightarrow>
          bind_outcome (CheckRequest l agentID host (x_now1 run) (x_now2 run))
            (\<lambda>(err, l'). Returns (err, Some l')))"

definition acquire_quota ::
  "Limiter option \<Rightarrow> string \<Rightarrow> string \<Rightarrow> (quota_error option \<times> Limiter option) outcome" where
  "acquire_quota limiter agentID host =
     (case limiter of
        None \<Rightarrow> Returns (None, None)
      | Some l \<Rightarrow>
          bind_outcome (AcquireStream l agentID host) (\<lambda>(err, l'). Returns (err, Some l')))"

definition release_deferred :: "Limiter option \<Rightarrow> string \<Rightarrow> string \<Rightarrow> Limiter option outcome" where
  "release_deferred limiter agentID host =
     (case limiter of
        None \<Rightarrow> Returns None
      | Some l \<Rightarrow> bind_outcome (ReleaseStream l agentID host) (\<lambda>l'. Returns (Some l')))"

definition ServeHTTP ::
  "Router \<Rightarrow> ResponseWriter \<Rightarrow> Request \<Rightarrow> RequestRun \<Rightarrow> (ResponseWriter \<times> Router) outcome" where
  "ServeHTTP r w req run =
     (let host = q_Host req
      in if host = [] then Returns (http_Error w ''Missing Host header'' StatusBadRequest, r)
         else
           case GetTunnel (rt_registry r) host of
             None \<Rightarrow>
               Returns (http_Error w (''Tunnel not found for domain: '' @ host) StatusNotFound, r)
           | Some tp \<Rightarrow>
           let tunnel = r_objects (rt_registry r) tp
           in
           bind_outcome (check_quota (rt_limiter r) (t_AgentID tunnel) host run)
             (\<lambda>(err, limiter1).
           let r1 = r\<lparr>rt_limiter := limiter1\<rparr>
           in
           case err of
             Some e \<Rightarrow>
               Returns (http_Error w (''Rate limit exceeded: '' @ quota_error_text e)
                          StatusTooManyRequests, r1)
           | None \<Rightarrow>
           case GetConnection (rt_connManager r1) (t_ConnectionID tunnel) of
             None \<Rightarrow> Returns (http_Error w ''Connection not found'' StatusServiceUnavailable, r1)
           | Some conn \<Rightarrow>
           bind_outcome (acquire_quota (rt_limiter r1) (t_AgentID tunnel) host)
             (\<lambda>(err, limiter2).
           let r2 = r1\<lparr>rt_limiter := limiter2\<rparr>
           in
           case err of
             Some e \<Rightarrow>
               Returns (http_Error w (''Stream limit exceeded: '' @ quota_error_text e)
                          StatusTooManyRequests, r2)
           | None \<Rightarrow>
           bind_outcome (on_connection (rt_connManager r2) conn AllocateStreamID)
             (\<lambda>(streamID, m1).
           bind_outcome (handleRequest m1 conn streamID w req run) (\<lambda>(err, w1, m2).
           let w2 = (case err of
                       Some e \<Rightarrow> http_Error w1 (router_error_text e) StatusInternalServerError
                     | None \<Rightarrow> w1)
           in
           bind_outcome (release_deferred (rt_limiter r2) (t_AgentID tunnel) host) (\<lambda>limiter3.
             Returns (w2, r2\<lparr>rt_connManager := m2, rt_limiter := limiter3\<rparr>)))))))"

section \<open>Auxiliary definitions for the proofs\<close>

text \<open>
  What the limiter's calls compute when the two table mutexes are free: the results of the
  two stream checks, and the limiter with one counter incremented or decremented.
\<close>

definition agent_stream_check :: "Limiter \<Rightarrow> string \<Rightarrow> quota_error option" where
  "agent_stream_check l a =
     (case l_agentLimits l a of
        None \<Rightarrow> None
      | Some limit \<Rightarrow>
          if sint (al_MaxStreams limit) \<le> sint (al_CurrentStreams limit)
          then Some ErrAgentStreamLimitExceeded else None)"

definition domain_stream_check :: "Limiter \<Rightarrow> string \<Rightarrow> quota_error option" where
  "domain_stream_check l d =
     (case l_domainLimits l d of
        None \<Rightarrow> None
      | Some limit \<Rightarrow>
          if sint (dl_MaxStreams limit) \<le> sint (dl_CurrentStreams limit)
          then Some ErrDomainStreamLimitExceeded else None)"

definition inc_agent :: "Limiter \<Rightarrow> string \<Rightarrow> Limiter" where
  "inc_agent l a =
     (case l_agentLimits l a of
        Some limit \<Rightarrow>
          l\<lparr>l_agentLimits := (l_agentLimits l)(a \<mapsto>
              limit\<lparr>al_CurrentStreams := al_CurrentStreams limit + 1\<rparr>)\<rparr>
      | None \<Rightarrow> l)"

definition inc_domain :: "Limiter \<Rightarrow> string \<Rightarrow> Limiter" where
  "inc_domain l d =
     (case l_domainLimits l d of
        Some limit \<Rightarrow>
          l\<lparr>l_domainLimits := (l_domainLimits l)(d \<mapsto>
              limit\<lparr>dl_CurrentStreams := dl_CurrentStreams limit + 1\<rparr>)\<rparr>
      | None \<Rightarrow> l)"

definition dec_agent :: "Limiter \<Rightarrow> string \<Rightarrow> Limiter" where
  "dec_agent l a =
     (case l_agentLimits l a of
        Some limit \<Rightarrow>
          if 0 < sint (al_CurrentStreams limit)
          then l\<lparr>l_agentLimits := (l_agentLimits l)(a \<mapsto>
                 limit\<lparr>al_CurrentStreams := al_CurrentStreams limit - 1\<rparr>)\<rparr>
          else l
      | None \<Rightarrow> l)"

definition dec_domain :: "Limiter \<Rightarrow> string \<Rightarrow> Limiter" where
  "dec_domain l d =
     (case l_domainLimits l d of
        Some limit \<Rightarrow>
          if 0 < sint (dl_CurrentStreams limit)
          then l\<lparr>l_domainLimits := (l_domainLimits l)(d \<mapsto>
                 limit\<lparr>dl_CurrentStreams := dl_CurrentStreams limit - 1\<rparr>)\<rparr>
          else l
      | None \<Rightarrow> l)"

text \<open>The invariant of the limiter between two calls.\<close>

definition limiter_inv :: "Limiter \<Rightarrow> bool" where
  "limiter_inv l = (mutexes_free l \<and> counters_nonneg l)"

text \<open>
  A limiter with one agent limit (two streams at most, one in use) and one domain limit
  (two streams at most, none in use), for the concrete runs below.
\<close>

definition example_limiter :: Limiter where
  "example_limiter =
     \<lparr>l_agentLimits = [''agent-1'' \<mapsto>
        \<lparr>al_AgentID = ''agent-1'', al_MaxStreams = 2, al_MaxBandwidth = 0, al_RateLimit = 5,
         al_TokenBucket = NewTokenBucket 5 5 0, al_CurrentStreams = 1, al_LastReset = 0\<rparr>],
      l_agentMu = unlocked,
      l_domainLimits = [''example.localhost'' \<mapsto>
        \<lparr>dl_Domain = ''example.localhost'', dl_MaxStreams = 2, dl_RateLimit = 5,
         dl_TokenBucket = NewTokenBucket 5 5 0, dl_CurrentStreams = 0, dl_LastReset = 0\<rparr>],
      l_domainMu = unlocked,
      l_maxConnections = 100, l_maxStreams = 1000\<rparr>"

text \<open>
  For the induction over a run of the registry: with the agreement of the two indices,
  every tunnel of the forward map was allocated and is filed under its own full domain.
\<close>

definition registry_inv :: "Registry \<Rightarrow> bool" where
  "registry_inv r =
     (registry_consistent r \<and>
      (\<forall>d p. r_tunnels r d = Some p \<longrightarrow> p < r_fresh r \<and> t_FullDomain (r_objects r p) = d))"

text \<open>
  Scenario 3 of the specification: two tunnels on \<open>conn-1\<close>, one on \<open>conn-2\<close>, then the
  tunnels of \<open>conn-1\<close> are unregistered.
\<close>

definition scenario_registered :: Registry where
  "scenario_registered =
     registry_run (NewRegistry ''localhost'')
       [OpRegisterTunnel [] ''a'' ''conn-1'' ''agent-1'' None 1 1,
        OpRegisterTunnel [] ''b'' ''conn-1'' ''agent-1'' None 2 2,
        OpRegisterTunnel [] ''c'' ''conn-2'' ''agent-2'' None 3 3]"

definition scenario_cleaned :: Registry where
  "scenario_cleaned =
     registry_run (NewRegistry ''localhost'')
       [OpRegisterTunnel [] ''a'' ''conn-1'' ''agent-1'' None 1 1,
        OpRegisterTunnel [] ''b'' ''conn-1'' ''agent-1'' None 2 2,
        OpRegisterTunnel [] ''c'' ''conn-2'' ''agent-2'' None 3 3,
        OpUnregisterConnectionTunnels ''conn-1'' [''b.localhost'', ''a.localhost'']]"

text \<open>
  A manager with the three callbacks installed and a heartbeat timeout of 200 ms, after
  the connection \<open>conn-1\<close> was registered at the instant 0: the connection is the object at
  address 0. And frames for the runs below.
\<close>

definition registered_manager :: Manager where
  "registered_manager =
     snd (RegisterConnection
            (SetOnStreamClosed (SetOnStreamCreated (SetOnConnectionClosed
               (NewManager 100 200000000))))
            ''conn-1'' ''agent-1'' None 0 0)"

definition stream_frame :: "FrameType \<Rightarrow> FrameFlag \<Rightarrow> u32 \<Rightarrow> bytes \<Rightarrow> Frame" where
  "stream_frame ty flags streamID payload =
     \<lparr>f_Version = 1, f_Type = ty, f_Flags = flags, f_StreamID = streamID, f_Payload = payload\<rparr>"

text \<open>The connection after \<open>n\<close> calls of \<open>AllocateStreamID\<close>.\<close>

fun allocate_n :: "Connection \<Rightarrow> nat \<Rightarrow> Connection outcome" where
  "allocate_n c 0 = Returns c"
| "allocate_n c (Suc n) = bind_outcome (AllocateStreamID c) (\<lambda>(streamID, c'). allocate_n c' n)"

definition conn_free :: "Connection \<Rightarrow> bool" where
  "conn_free c = (c_streamsMu c = unlocked \<and> c_closedMu c = unlocked)"

text \<open>
  The connection that \<open>RegisterConnection\<close> builds for \<open>conn-1\<close>, and that connection once
  \<open>createStream\<close> has made the stream 7 on it (at the instant 5).
\<close>

definition new_connection :: Connection where
  "new_connection =
     \<lparr>c_ID = ''conn-1'', c_AgentID = ''agent-1'', c_Metadata = None, c_CreatedAt = 0,
      c_LastHeartbeat = 0, c_objects = (\<lambda>p. no_stream), c_fresh = 0,
      c_streams = [], c_streamsMu = unlocked, c_nextStreamID = 1,
      c_cancelled = False, c_closed = False, c_closedMu = unlocked,
      c_sent = [], c_Conn_closed = False\<rparr>"

definition one_stream_connection :: Connection where
  "one_stream_connection =
     new_connection\<lparr>
       c_objects := (\<lambda>p. no_stream)(0 :=
         \<lparr>s_ID = 7, s_State = StreamStateInit, s_CreatedAt = 5, s_Metadata = [],
          s_dataIn = [], s_dataOut = [], s_closeCh = False\<rparr>),
       c_fresh := 1,
       c_streams := [(7, 0)]\<rparr>"

text \<open>
  The connection \<open>conn-1\<close> after a \<open>Close\<close> that found no stream, and the manager when the
  goroutine of \<open>conn-1\<close> has left its loop and run its deferred \<open>Close\<close>.
\<close>

definition closed_connection :: Connection where
  "closed_connection = new_connection\<lparr>c_closed := True, c_cancelled := True, c_Conn_closed := True\<rparr>"

definition manager_after_loop :: Manager where
  "manager_after_loop =
     registered_manager\<lparr>m_objects := (m_objects registered_manager)(0 := closed_connection)\<rparr>"

text \<open>
  A router without limiter whose registry maps \<open>example.localhost\<close> to the connection
  \<open>conn-1\<close> of \<open>registered_manager\<close>, a request for that host, and a run in which every frame
  is written to the socket and nothing comes back.
\<close>

definition example_registry :: Registry where
  "example_registry =
     snd (RegisterTunnel (NewRegistry ''localhost'') [] ''example'' ''conn-1'' ''agent-1'' None 0 0)"

definition example_router :: Router where
  "example_router = NewRouter example_registry registered_manager None 30000000000"

definition example_request :: Request where
  "example_request =
     \<lparr>q_Host = ''example.localhost'', q_Method = ''GET'', q_Path = ''/'', q_Proto = ''HTTP/1.1'',
      q_Header = [], q_Body = NoBody\<rparr>"

definition silent_run :: RequestRun where
  "silent_run =
     \<lparr>x_now1 = 10, x_now2 = 10, x_encoded_open = None, x_encoded_body = None,
      x_encoded_end = None, x_wait = []\<rparr>"





section \<open>Token bucket: what a call computes\<close>









section \<open>Mutexes: a lock and its unlock\<close>

lemma bind_Returns: "bind_outcome (Returns x) f = f x"
  by (simp add: bind_outcome_def)

lemma RLock_RUnlock:
  "\<not> writer mu \<Longrightarrow> bind_outcome (RLock mu) (\<lambda>m. bind_outcome (RUnlock m) f) = f mu"
  by (simp add: RLock_def RUnlock_def bind_outcome_def)

lemma Lock_Unlock:
  "\<not> writer mu \<Longrightarrow> readers mu = 0 \<Longrightarrow>
   bind_outcome (Lock mu) (\<lambda>m. bind_outcome (Unlock m) f) = f mu"
  by (cases mu) (simp add: Lock_def Unlock_def bind_outcome_def)

lemma RLock_Unlock_Fatal:
  "\<not> writer mu \<Longrightarrow> bind_outcome (RLock mu) (\<lambda>m. bind_outcome (Unlock m) f) = Fatal"
  by (simp add: RLock_def Unlock_def bind_outcome_def)

lemma RLock_writer_Blocked: "writer mu \<Longrightarrow> bind_outcome (RLock mu) f = Blocked"
  by (simp add: RLock_def bind_outcome_def)

lemma unlocked_simps: "\<not> writer unlocked" "readers unlocked = 0"
  by (simp_all add: unlocked_def)

lemmas mutex_simps = bind_Returns RLock_RUnlock Lock_Unlock unlocked_simps

section \<open>Signed 64-bit counters\<close>

lemma sint_succ:
  fixes x m :: "64 word"
  assumes "sint x < sint m"
  shows "sint (x + 1) = sint x + 1"
proof -
  have up: "sint m < 2 ^ 63" using sint_lt [of m] by simp
  have lo: "- (2 ^ 63) \<le> sint x" using sint_ge [of x] by simp
  have "sint (x + 1) = signed_take_bit 63 (sint x + 1)"
    by (simp add: sint_word_ariths)
  also have "\<dots> = sint x + 1"
    using assms up lo by (intro signed_take_bit_int_eq_self) auto
  finally show ?thesis .
qed

lemma sint_pred:
  fixes x :: "64 word"
  assumes "0 < sint x"
  shows "sint (x - 1) = sint x - 1"
proof -
  have up: "sint x < 2 ^ 63" using sint_lt [of x] by simp
  have "sint (x - 1) = signed_take_bit 63 (sint x - 1)"
    by (simp add: sint_word_ariths)
  also have "\<dots> = sint x - 1"
    using assms up by (intro signed_take_bit_int_eq_self) auto
  finally show ?thesis .
qed

section \<open>The limiter with its mutexes free\<close>

lemma agentMu_same: "l_agentMu l = mu \<Longrightarrow> l\<lparr>l_agentMu := mu\<rparr> = l"
  by auto

lemma domainMu_same: "l_domainMu l = mu \<Longrightarrow> l\<lparr>l_domainMu := mu\<rparr> = l"
  by auto

lemma inc_dec_fields:
  "l_agentMu (inc_agent l a) = l_agentMu l" "l_domainMu (inc_agent l a) = l_domainMu l"
  "l_agentMu (inc_domain l d) = l_agentMu l" "l_domainMu (inc_domain l d) = l_domainMu l"
  "l_agentMu (dec_agent l a) = l_agentMu l" "l_domainMu (dec_agent l a) = l_domainMu l"
  "l_agentMu (dec_domain l d) = l_agentMu l" "l_domainMu (dec_domain l d) = l_domainMu l"
  "l_domainLimits (inc_agent l a) = l_domainLimits l"
  "l_agentLimits (inc_domain l d) = l_agentLimits l"
  "l_domainLimits (dec_agent l a) = l_domainLimits l"
  "l_agentLimits (dec_domain l d) = l_agentLimits l"
  by (simp_all add: inc_agent_def inc_domain_def dec_agent_def dec_domain_def
      split: option.splits)

lemma CheckAgentStreamLimit_free:
  "mutexes_free l \<Longrightarrow> CheckAgentStreamLimit l a = Returns (agent_stream_check l a, l)"
  by (simp add: CheckAgentStreamLimit_def mutexes_free_def mutex_simps agentMu_same
      agent_stream_check_def Let_def split: option.splits)

lemma CheckDomainStreamLimit_free:
  "mutexes_free l \<Longrightarrow> CheckDomainStreamLimit l d = Returns (domain_stream_check l d, l)"
  by (simp add: CheckDomainStreamLimit_def mutexes_free_def mutex_simps domainMu_same
      domain_stream_check_def Let_def split: option.splits)

lemma AcquireStream_free:
  assumes "mutexes_free l"
  shows "AcquireStream l a d =
     (case agent_stream_check l a of
        Some e \<Rightarrow> Returns (Some e, l)
      | None \<Rightarrow>
          (case domain_stream_check l d of
             Some e \<Rightarrow> Returns (Some e, l)
           | None \<Rightarrow> Returns (None, inc_domain (inc_agent l a) d)))"
proof -
  have am: "l_agentMu l = unlocked" and dm: "l_domainMu l = unlocked"
    using assms by (simp_all add: mutexes_free_def)
  have fold_a: "\<And>l. (case l_agentLimits l a of
                   Some limit \<Rightarrow>
                     l\<lparr>l_agentLimits := (l_agentLimits l)(a \<mapsto>
                          limit\<lparr>al_CurrentStreams := al_CurrentStreams limit + 1\<rparr>)\<rparr>
                 | None \<Rightarrow> l) = inc_agent l a"
    by (simp add: inc_agent_def)
  have fold_d: "\<And>l. (case l_domainLimits l d of
                   Some limit \<Rightarrow>
                     l\<lparr>l_domainLimits := (l_domainLimits l)(d \<mapsto>
                          limit\<lparr>dl_CurrentStreams := dl_CurrentStreams limit + 1\<rparr>)\<rparr>
                 | None \<Rightarrow> l) = inc_domain l d"
    by (simp add: inc_domain_def)
  have a_same: "(inc_agent l a)\<lparr>l_agentMu := unlocked\<rparr> = inc_agent l a"
    by (rule agentMu_same) (simp add: inc_dec_fields am)
  have d_same: "(inc_domain (inc_agent l a) d)\<lparr>l_domainMu := unlocked\<rparr> = inc_domain (inc_agent l a) d"
    by (rule domainMu_same) (simp add: inc_dec_fields dm)
  show ?thesis
    unfolding AcquireStream_def CheckAgentStreamLimit_free [OF assms]
    by (simp add: bind_Returns CheckDomainStreamLimit_free [OF assms] Let_def fold_a fold_d
        am dm Lock_Unlock unlocked_simps a_same d_same inc_dec_fields split: option.splits)
qed

lemma ReleaseStream_free:
  assumes "mutexes_free l"
  shows "ReleaseStream l a d = Returns (dec_domain (dec_agent l a) d)"
proof -
  have am: "l_agentMu l = unlocked" and dm: "l_domainMu l = unlocked"
    using assms by (simp_all add: mutexes_free_def)
  have fold_a: "\<And>l. (case l_agentLimits l a of
                   Some limit \<Rightarrow>
                     if 0 < sint (al_CurrentStreams limit)
                     then l\<lparr>l_agentLimits := (l_agentLimits l)(a \<mapsto>
                            limit\<lparr>al_CurrentStreams := al_CurrentStreams limit - 1\<rparr>)\<rparr>
                     else l
                 | None \<Rightarrow> l) = dec_agent l a"
    by (simp add: dec_agent_def)
  have fold_d: "\<And>l. (case l_domainLimits l d of
                   Some limit \<Rightarrow>
                     if 0 < sint (dl_CurrentStreams limit)
                     then l\<lparr>l_domainLimits := (l_domainLimits l)(d \<mapsto>
                            limit\<lparr>dl_CurrentStreams := dl_CurrentStreams limit - 1\<rparr>)\<rparr>
                     else l
                 | None \<Rightarrow> l) = dec_domain l d"
    by (simp add: dec_domain_def)
  have a_same: "(dec_agent l a)\<lparr>l_agentMu := unlocked\<rparr> = dec_agent l a"
    by (rule agentMu_same) (simp add: inc_dec_fields am)
  have d_same: "(dec_domain (dec_agent l a) d)\<lparr>l_domainMu := unlocked\<rparr> = dec_domain (dec_agent l a) d"
    by (rule domainMu_same) (simp add: inc_dec_fields dm)
  show ?thesis
    unfolding ReleaseStream_def
    by (simp add: bind_Returns Let_def fold_a fold_d
        am dm Lock_Unlock unlocked_simps a_same d_same inc_dec_fields)
qed

lemma SetAgentLimit_free:
  "mutexes_free l \<Longrightarrow>
   SetAgentLimit l a ms bw rl t1 t2 =
     Returns (l\<lparr>l_agentLimits := (l_agentLimits l)(a \<mapsto>
        \<lparr>al_AgentID = a, al_MaxStreams = ms, al_MaxBandwidth = bw, al_RateLimit = rl,
         al_TokenBucket = NewTokenBucket rl rl t1, al_CurrentStreams = 0,
         al_LastReset = t2\<rparr>)\<rparr>)"
  by (simp add: SetAgentLimit_def mutexes_free_def mutex_simps Let_def agentMu_same)

lemma SetDomainLimit_free:
  "mutexes_free l \<Longrightarrow>
   SetDomainLimit l d ms rl t1 t2 =
     Returns (l\<lparr>l_domainLimits := (l_domainLimits l)(d \<mapsto>
        \<lparr>dl_Domain = d, dl_MaxStreams = ms, dl_RateLimit = rl,
         dl_TokenBucket = NewTokenBucket rl rl t1, dl_CurrentStreams = 0,
         dl_LastReset = t2\<rparr>)\<rparr>)"
  by (simp add: SetDomainLimit_def mutexes_free_def mutex_simps Let_def domainMu_same)

lemma CheckAgentRateLimit_free:
  "mutexes_free l \<Longrightarrow>
   CheckAgentRateLimit l a now =
     Returns (case l_agentLimits l a of
                None \<Rightarrow> (None, l)
              | Some limit \<Rightarrow>
                  (if fst (Allow (al_TokenBucket limit) now) then None
                   else Some ErrAgentRateLimitExceeded,
                   l\<lparr>l_agentLimits := (l_agentLimits l)(a \<mapsto>
                       limit\<lparr>al_TokenBucket := snd (Allow (al_TokenBucket limit) now)\<rparr>)\<rparr>))"
  by (simp add: CheckAgentRateLimit_def mutexes_free_def mutex_simps agentMu_same Let_def
      split: option.splits prod.splits)

lemma CheckDomainRateLimit_free:
  "mutexes_free l \<Longrightarrow>
   CheckDomainRateLimit l d now =
     Returns (case l_domainLimits l d of
                None \<Rightarrow> (None, l)
              | Some limit \<Rightarrow>
                  (if fst (Allow (dl_TokenBucket limit) now) then None
                   else Some ErrDomainRateLimitExceeded,
                   l\<lparr>l_domainLimits := (l_domainLimits l)(d \<mapsto>
                       limit\<lparr>dl_TokenBucket := snd (Allow (dl_TokenBucket limit) now)\<rparr>)\<rparr>))"
  by (simp add: CheckDomainRateLimit_def mutexes_free_def mutex_simps domainMu_same Let_def
      split: option.splits prod.splits)

lemma GetAgentLimit_free:
  "\<not> writer (l_agentMu l) \<Longrightarrow> GetAgentLimit l a = Returns (l_agentLimits l a, l)"
  by (simp add: GetAgentLimit_def mutex_simps Let_def)

lemma GetDomainLimit_outcome:
  "GetDomainLimit l d = (if writer (l_domainMu l) then Blocked else Fatal)"
  by (simp add: GetDomainLimit_def Let_def RLock_Unlock_Fatal RLock_writer_Blocked)

lemma ResetAgentLimits_free:
  "mutexes_free l \<Longrightarrow>
   ResetAgentLimits l a t1 t2 =
     Returns (case l_agentLimits l a of
                Some limit \<Rightarrow>
                  l\<lparr>l_agentLimits := (l_agentLimits l)(a \<mapsto>
                      limit\<lparr>al_CurrentStreams := 0,
                            al_TokenBucket :=
                              NewTokenBucket (al_RateLimit limit) (al_RateLimit limit) t1,
                            al_LastReset := t2\<rparr>)\<rparr>
              | None \<Rightarrow> l)"
  by (simp add: ResetAgentLimits_def mutexes_free_def mutex_simps agentMu_same Let_def
      split: option.splits)

lemma ResetDomainLimits_free:
  "mutexes_free l \<Longrightarrow>
   ResetDomainLimits l d t1 t2 =
     Returns (case l_domainLimits l d of
                Some limit \<Rightarrow>
                  l\<lparr>l_domainLimits := (l_domainLimits l)(d \<mapsto>
                      limit\<lparr>dl_CurrentStreams := 0,
                            dl_TokenBucket :=
                              NewTokenBucket (dl_RateLimit limit) (dl_RateLimit limit) t1,
                            dl_LastReset := t2\<rparr>)\<rparr>
              | None \<Rightarrow> l)"
  by (simp add: ResetDomainLimits_def mutexes_free_def mutex_simps domainMu_same Let_def
      split: option.splits)

section \<open>The limiter's invariant\<close>

lemma inv_SetAgentLimit:
  "limiter_inv l \<Longrightarrow> SetAgentLimit l a ms bw rl t1 t2 = Returns l' \<Longrightarrow> limiter_inv l'"
  by (auto simp: limiter_inv_def SetAgentLimit_free mutexes_free_def counters_nonneg_def
      split: if_splits)

lemma inv_SetDomainLimit:
  "limiter_inv l \<Longrightarrow> SetDomainLimit l d ms rl t1 t2 = Returns l' \<Longrightarrow> limiter_inv l'"
  by (auto simp: limiter_inv_def SetDomainLimit_free mutexes_free_def counters_nonneg_def
      split: if_splits)

lemma inv_CheckAgentStreamLimit:
  "limiter_inv l \<Longrightarrow> CheckAgentStreamLimit l a = Returns (r, l') \<Longrightarrow> limiter_inv l'"
  by (auto simp: limiter_inv_def CheckAgentStreamLimit_free)

lemma inv_CheckDomainStreamLimit:
  "limiter_inv l \<Longrightarrow> CheckDomainStreamLimit l d = Returns (r, l') \<Longrightarrow> limiter_inv l'"
  by (auto simp: limiter_inv_def CheckDomainStreamLimit_free)

lemma inv_CheckAgentRateLimit:
  "limiter_inv l \<Longrightarrow> CheckAgentRateLimit l a now = Returns (r, l') \<Longrightarrow> limiter_inv l'"
  by (auto simp: limiter_inv_def CheckAgentRateLimit_free mutexes_free_def counters_nonneg_def
      split: option.splits if_splits)

lemma inv_CheckDomainRateLimit:
  "limiter_inv l \<Longrightarrow> CheckDomainRateLimit l d now = Returns (r, l') \<Longrightarrow> limiter_inv l'"
  by (auto simp: limiter_inv_def CheckDomainRateLimit_free mutexes_free_def counters_nonneg_def
      split: option.splits if_splits)

lemma sint_succ_nonneg:
  fixes x m :: "64 word"
  shows "0 \<le> sint x \<Longrightarrow> \<not> sint m \<le> sint x \<Longrightarrow> 0 \<le> sint (x + 1)"
  using sint_succ [of x m] by simp

lemma inv_inc_agent:
  "limiter_inv l \<Longrightarrow> agent_stream_check l a = None \<Longrightarrow> limiter_inv (inc_agent l a)"
  by (auto simp: limiter_inv_def mutexes_free_def counters_nonneg_def inc_agent_def
      agent_stream_check_def split: option.splits if_splits intro: sint_succ_nonneg)

lemma inv_inc_domain:
  "limiter_inv l \<Longrightarrow> domain_stream_check l d = None \<Longrightarrow> limiter_inv (inc_domain l d)"
  by (auto simp: limiter_inv_def mutexes_free_def counters_nonneg_def inc_domain_def
      domain_stream_check_def split: option.splits if_splits intro: sint_succ_nonneg)

lemma inv_dec_agent: "limiter_inv l \<Longrightarrow> limiter_inv (dec_agent l a)"
  by (auto simp: limiter_inv_def mutexes_free_def counters_nonneg_def dec_agent_def
      sint_pred split: option.splits if_splits)

lemma inv_dec_domain: "limiter_inv l \<Longrightarrow> limiter_inv (dec_domain l d)"
  by (auto simp: limiter_inv_def mutexes_free_def counters_nonneg_def dec_domain_def
      sint_pred split: option.splits if_splits)

lemma domain_check_inc_agent: "domain_stream_check (inc_agent l a) d = domain_stream_check l d"
  by (simp add: domain_stream_check_def inc_dec_fields)

lemma inv_AcquireStream:
  assumes "limiter_inv l" and "AcquireStream l a d = Returns (r, l')"
  shows "limiter_inv l'"
proof -
  have free: "mutexes_free l" using assms(1) by (simp add: limiter_inv_def)
  show ?thesis
  proof (cases "agent_stream_check l a")
    case (Some e)
    then show ?thesis using assms by (simp add: AcquireStream_free [OF free])
  next
    case a: None
    show ?thesis
    proof (cases "domain_stream_check l d")
      case (Some e)
      then show ?thesis using assms a by (simp add: AcquireStream_free [OF free])
    next
      case None
      then have "l' = inc_domain (inc_agent l a) d"
        using assms a by (simp add: AcquireStream_free [OF free])
      moreover have "limiter_inv (inc_agent l a)"
        using assms(1) a by (rule inv_inc_agent)
      ultimately show ?thesis
        using None by (simp add: inv_inc_domain domain_check_inc_agent)
    qed
  qed
qed

lemma inv_ReleaseStream:
  "limiter_inv l \<Longrightarrow> ReleaseStream l a d = Returns l' \<Longrightarrow> limiter_inv l'"
  by (auto simp: ReleaseStream_free limiter_inv_def [of l] intro!: inv_dec_domain inv_dec_agent)

lemma inv_CheckRequest:
  assumes "limiter_inv l" and "CheckRequest l a d t1 t2 = Returns (r, l')"
  shows "limiter_inv l'"
proof -
  obtain r1 where "CheckAgentRateLimit l a t1 = Returns r1"
    using assms(1) by (simp add: limiter_inv_def CheckAgentRateLimit_free)
  then obtain e1 l1 where s1: "CheckAgentRateLimit l a t1 = Returns (e1, l1)"
    by (cases r1) simp
  have i1: "limiter_inv l1" using assms(1) s1 by (rule inv_CheckAgentRateLimit)
  obtain r2 where "CheckDomainRateLimit l1 d t2 = Returns r2"
    using i1 by (simp add: limiter_inv_def CheckDomainRateLimit_free)
  then obtain e2 l2 where s2: "CheckDomainRateLimit l1 d t2 = Returns (e2, l2)"
    by (cases r2) simp
  have i2: "limiter_inv l2" using i1 s2 by (rule inv_CheckDomainRateLimit)
  have f2: "mutexes_free l2" using i2 by (simp add: limiter_inv_def)
  show ?thesis
    using assms(2) i1 i2
    by (auto simp: CheckRequest_def s1 s2 bind_Returns CheckAgentStreamLimit_free [OF f2]
        CheckDomainStreamLimit_free [OF f2] split: option.splits)
qed

lemma inv_GetAgentLimit:
  "limiter_inv l \<Longrightarrow> GetAgentLimit l a = Returns (r, l') \<Longrightarrow> limiter_inv l'"
  by (auto simp: limiter_inv_def mutexes_free_def GetAgentLimit_free unlocked_simps)

lemma inv_ResetAgentLimits:
  "limiter_inv l \<Longrightarrow> ResetAgentLimits l a t1 t2 = Returns l' \<Longrightarrow> limiter_inv l'"
  by (auto simp: limiter_inv_def ResetAgentLimits_free mutexes_free_def counters_nonneg_def
      split: option.splits if_splits)

lemma inv_ResetDomainLimits:
  "limiter_inv l \<Longrightarrow> ResetDomainLimits l d t1 t2 = Returns l' \<Longrightarrow> limiter_inv l'"
  by (auto simp: limiter_inv_def ResetDomainLimits_free mutexes_free_def counters_nonneg_def
      split: option.splits if_splits)

lemma state_of_Returns: "state_of r = Returns l' \<Longrightarrow> \<exists>x. r = Returns (x, l')"
  by (cases r) (auto simp: state_of_def bind_outcome_def)

lemma inv_limiter_call:
  assumes "limiter_inv l" and "limiter_call l x = Returns l'"
  shows "limiter_inv l'"
proof (cases x)
  case (OpSetAgentLimit a ms bw rl t1 t2)
  then show ?thesis using assms by (auto intro: inv_SetAgentLimit)
next
  case (OpSetDomainLimit d ms rl t1 t2)
  then show ?thesis using assms by (auto intro: inv_SetDomainLimit)
next
  case (OpCheckAgentStreamLimit a)
  then show ?thesis using assms by (auto dest!: state_of_Returns intro: inv_CheckAgentStreamLimit)
next
  case (OpCheckDomainStreamLimit d)
  then show ?thesis using assms by (auto dest!: state_of_Returns intro: inv_CheckDomainStreamLimit)
next
  case (OpCheckAgentRateLimit a t)
  then show ?thesis using assms by (auto dest!: state_of_Returns intro: inv_CheckAgentRateLimit)
next
  case (OpCheckDomainRateLimit d t)
  then show ?thesis using assms by (auto dest!: state_of_Returns intro: inv_CheckDomainRateLimit)
next
  case (OpAcquireStream a d)
  then show ?thesis using assms by (auto dest!: state_of_Returns intro: inv_AcquireStream)
next
  case (OpReleaseStream a d)
  then show ?thesis using assms by (auto intro: inv_ReleaseStream)
next
  case (OpCheckRequest a d t1 t2)
  then show ?thesis using assms by (auto dest!: state_of_Returns intro: inv_CheckRequest)
next
  case (OpGetAgentLimit a)
  then show ?thesis using assms by (auto dest!: state_of_Returns intro: inv_GetAgentLimit)
next
  case (OpGetDomainLimit d)
  then show ?thesis using assms
    by (auto dest!: state_of_Returns simp: GetDomainLimit_outcome split: if_splits)
next
  case (OpResetAgentLimits a t1 t2)
  then show ?thesis using assms by (auto intro: inv_ResetAgentLimits)
next
  case (OpResetDomainLimits d t1 t2)
  then show ?thesis using assms by (auto intro: inv_ResetDomainLimits)
qed

lemma inv_limiter_run:
  "limiter_inv l \<Longrightarrow> limiter_run l xs = Returns l' \<Longrightarrow> limiter_inv l'"
proof (induction xs arbitrary: l)
  case Nil
  then show ?case by simp
next
  case (Cons x xs)
  from Cons.prems(2) obtain l1 where c: "limiter_call l x = Returns l1"
    and r: "limiter_run l1 xs = Returns l'"
    by (cases "limiter_call l x") (auto simp: bind_outcome_def)
  from Cons.prems(1) c have "limiter_inv l1" by (rule inv_limiter_call)
  then show ?case using r by (rule Cons.IH)
qed

lemma inv_NewLimiter: "limiter_inv (NewLimiter mc ms)"
  by (simp add: limiter_inv_def mutexes_free_def counters_nonneg_def NewLimiter_def)

section \<open>Acquire then release\<close>

lemma dec_inc_agent:
  assumes "counters_nonneg l" and "agent_stream_check l a = None"
  shows "dec_agent (inc_agent l a) a = l"
proof (cases "l_agentLimits l a")
  case None
  then show ?thesis by (simp add: inc_agent_def dec_agent_def)
next
  case (Some limit)
  with assms(2) have lt: "sint (al_CurrentStreams limit) < sint (al_MaxStreams limit)"
    by (simp add: agent_stream_check_def split: if_splits)
  from assms(1) Some have ge: "0 \<le> sint (al_CurrentStreams limit)"
    by (simp add: counters_nonneg_def)
  have pos: "0 < sint (al_CurrentStreams limit + 1)"
    using sint_succ [OF lt] ge by simp
  have "(l_agentLimits l)(a \<mapsto> limit) = l_agentLimits l"
    using Some by (simp add: map_upd_triv)
  then show ?thesis
    using Some pos by (simp add: inc_agent_def dec_agent_def)
qed

lemma dec_inc_domain:
  assumes "counters_nonneg l" and "domain_stream_check l d = None"
  shows "dec_domain (inc_domain l d) d = l"
proof (cases "l_domainLimits l d")
  case None
  then show ?thesis by (simp add: inc_domain_def dec_domain_def)
next
  case (Some limit)
  with assms(2) have lt: "sint (dl_CurrentStreams limit) < sint (dl_MaxStreams limit)"
    by (simp add: domain_stream_check_def split: if_splits)
  from assms(1) Some have ge: "0 \<le> sint (dl_CurrentStreams limit)"
    by (simp add: counters_nonneg_def)
  have pos: "0 < sint (dl_CurrentStreams limit + 1)"
    using sint_succ [OF lt] ge by simp
  have "(l_domainLimits l)(d \<mapsto> limit) = l_domainLimits l"
    using Some by (simp add: map_upd_triv)
  then show ?thesis
    using Some pos by (simp add: inc_domain_def dec_domain_def)
qed

lemma dec_agent_inc_domain: "dec_agent (inc_domain l d) a = inc_domain (dec_agent l a) d"
  by (simp add: dec_agent_def inc_domain_def split: option.splits)

text \<open>
  C7. In every limiter state whose configured counters are all non-negative (the two
  table mutexes free, as between any two calls), an \<open>AcquireStream\<close> that succeeds followed
  by the \<open>ReleaseStream\<close> of the same agent and domain gives back the state it started
  from, so both \<open>CurrentStreams\<close> counters have their original values; and every call of
  the limiter that returns leaves every configured counter non-negative (and the mutexes
  free). The counters are 64-bit: the increment happens only below \<open>MaxStreams\<close> and the
  decrement only above zero, so neither wraps.
\<close>

theorem acquire_release_identity:
  assumes "mutexes_free l" and "counters_nonneg l"
  shows "(\<forall>l1. AcquireStream l a d = Returns (None, l1)
            \<longrightarrow> ReleaseStream l1 a d = Returns l)
       \<and> (\<forall>x l'. limiter_call l x = Returns l' \<longrightarrow> counters_nonneg l' \<and> mutexes_free l')"
proof (intro conjI allI impI)
  fix l1
  assume acq: "AcquireStream l a d = Returns (None, l1)"
  have inv: "limiter_inv l" using assms by (simp add: limiter_inv_def)
  have ca: "agent_stream_check l a = None"
    using acq by (simp add: AcquireStream_free [OF assms(1)] split: option.splits)
  have cd: "domain_stream_check l d = None"
    using acq by (simp add: AcquireStream_free [OF assms(1)] split: option.splits)
  have l1: "l1 = inc_domain (inc_agent l a) d"
    using acq ca cd by (simp add: AcquireStream_free [OF assms(1)])
  have "limiter_inv l1" using inv acq by (rule inv_AcquireStream)
  then have free1: "mutexes_free l1" by (simp add: limiter_inv_def)
  have "dec_domain (dec_agent l1 a) d = dec_domain (inc_domain (dec_agent (inc_agent l a) a) d) d"
    by (simp add: l1 dec_agent_inc_domain)
  also have "\<dots> = dec_domain (inc_domain l d) d"
    by (simp add: dec_inc_agent [OF assms(2) ca])
  also have "\<dots> = l"
    by (rule dec_inc_domain [OF assms(2) cd])
  finally show "ReleaseStream l1 a d = Returns l"
    by (simp add: ReleaseStream_free [OF free1])
next
  fix x l'
  assume "limiter_call l x = Returns l'"
  moreover have "limiter_inv l" using assms by (simp add: limiter_inv_def)
  ultimately have "limiter_inv l'" by (rule inv_limiter_call [rotated])
  then show "counters_nonneg l'" and "mutexes_free l'" by (simp_all add: limiter_inv_def)
qed

lemma example_limiter_free: "mutexes_free example_limiter"
  by (simp add: mutexes_free_def example_limiter_def)

lemma example_limiter_nonneg: "counters_nonneg example_limiter"
  by (auto simp: counters_nonneg_def example_limiter_def split: if_splits)

lemma example_acquire:
  "AcquireStream example_limiter ''agent-1'' ''example.localhost'' =
     Returns (None, inc_domain (inc_agent example_limiter ''agent-1'') ''example.localhost'')"
  by (simp only: AcquireStream_free [OF example_limiter_free])
     (simp add: agent_stream_check_def domain_stream_check_def example_limiter_def)

theorem acquire_release_identity_witness:
  "mutexes_free example_limiter \<and> counters_nonneg example_limiter
   \<and> AcquireStream example_limiter ''agent-1'' ''example.localhost'' =
       Returns (None, inc_domain (inc_agent example_limiter ''agent-1'') ''example.localhost'')
   \<and> map_option al_CurrentStreams
        (l_agentLimits (inc_domain (inc_agent example_limiter ''agent-1'') ''example.localhost'')
           ''agent-1'') = Some 2
   \<and> map_option dl_CurrentStreams
        (l_domainLimits (inc_domain (inc_agent example_limiter ''agent-1'') ''example.localhost'')
           ''example.localhost'') = Some 1
   \<and> ReleaseStream (inc_domain (inc_agent example_limiter ''agent-1'') ''example.localhost'')
        ''agent-1'' ''example.localhost'' = Returns example_limiter
   \<and> limiter_call example_limiter (OpReleaseStream ''agent-1'' ''example.localhost'')
        = Returns (dec_agent example_limiter ''agent-1'')
   \<and> counters_nonneg (dec_agent example_limiter ''agent-1'')"
proof -
  note inst = acquire_release_identity [OF example_limiter_free example_limiter_nonneg,
      of "''agent-1''" "''example.localhost''"]
  have rel: "limiter_call example_limiter (OpReleaseStream ''agent-1'' ''example.localhost'')
        = Returns (dec_agent example_limiter ''agent-1'')"
    by (simp only: limiter_call.simps ReleaseStream_free [OF example_limiter_free])
       (simp add: dec_domain_def dec_agent_def example_limiter_def)
  have c1: "map_option al_CurrentStreams
        (l_agentLimits (inc_domain (inc_agent example_limiter ''agent-1'') ''example.localhost'')
           ''agent-1'') = Some 2"
    by (simp add: inc_domain_def inc_agent_def example_limiter_def)
  have c2: "map_option dl_CurrentStreams
        (l_domainLimits (inc_domain (inc_agent example_limiter ''agent-1'') ''example.localhost'')
           ''example.localhost'') = Some 1"
    by (simp add: inc_domain_def inc_agent_def example_limiter_def)
  from inst rel have "counters_nonneg (dec_agent example_limiter ''agent-1'')" by blast
  moreover from inst example_acquire
  have "ReleaseStream (inc_domain (inc_agent example_limiter ''agent-1'') ''example.localhost'')
        ''agent-1'' ''example.localhost'' = Returns example_limiter" by blast
  ultimately show ?thesis
    using example_limiter_free example_limiter_nonneg example_acquire rel c1 c2 by simp
qed

section \<open>GetDomainLimit and GetAgentLimit\<close>

text \<open>
  C10. \<open>GetDomainLimit\<close> takes the read lock of \<open>domainMu\<close> and defers \<open>Unlock\<close>, the release
  of the write lock: in no state of the limiter does a call return. Where the write lock is
  free the read lock is taken and the deferred \<open>Unlock\<close> finds the mutex not write-locked,
  which stops the process; where it is held the call waits. \<open>GetAgentLimit\<close> pairs
  \<open>RLock\<close> with \<open>RUnlock\<close>: in every state that a run of returning calls reaches from a new
  limiter it returns the table's entry and leaves the limiter as it was.
\<close>

theorem GetDomainLimit_never_returns:
  "(\<forall>r. GetDomainLimit l d \<noteq> Returns r)
   \<and> (limiter_run (NewLimiter mc ms) xs = Returns l
        \<longrightarrow> GetDomainLimit l d = Fatal \<and> GetAgentLimit l a = Returns (l_agentLimits l a, l))"
proof (intro conjI allI impI)
  fix r show "GetDomainLimit l d \<noteq> Returns r"
    by (simp add: GetDomainLimit_outcome)
next
  assume "limiter_run (NewLimiter mc ms) xs = Returns l"
  with inv_NewLimiter have "limiter_inv l" by (rule inv_limiter_run)
  then have a: "\<not> writer (l_agentMu l)" and b: "\<not> writer (l_domainMu l)"
    by (simp_all add: limiter_inv_def mutexes_free_def unlocked_simps)
  from b show "GetDomainLimit l d = Fatal" by (simp add: GetDomainLimit_outcome)
  from a show "GetAgentLimit l a = Returns (l_agentLimits l a, l)" by (rule GetAgentLimit_free)
qed

theorem GetDomainLimit_never_returns_witness:
  "limiter_run (NewLimiter 100 1000)
      [OpSetDomainLimit ''example.localhost'' 2 5 0 0, OpAcquireStream ''agent-1'' ''example.localhost'']
     = Returns (inc_domain
         ((NewLimiter 100 1000)\<lparr>l_domainLimits := [''example.localhost'' \<mapsto>
             \<lparr>dl_Domain = ''example.localhost'', dl_MaxStreams = 2, dl_RateLimit = 5,
              dl_TokenBucket = NewTokenBucket 5 5 0, dl_CurrentStreams = 0,
              dl_LastReset = 0\<rparr>]\<rparr>) ''example.localhost'')
   \<and> GetDomainLimit (inc_domain
         ((NewLimiter 100 1000)\<lparr>l_domainLimits := [''example.localhost'' \<mapsto>
             \<lparr>dl_Domain = ''example.localhost'', dl_MaxStreams = 2, dl_RateLimit = 5,
              dl_TokenBucket = NewTokenBucket 5 5 0, dl_CurrentStreams = 0,
              dl_LastReset = 0\<rparr>]\<rparr>) ''example.localhost'') ''example.localhost'' = Fatal
   \<and> GetAgentLimit (inc_domain
         ((NewLimiter 100 1000)\<lparr>l_domainLimits := [''example.localhost'' \<mapsto>
             \<lparr>dl_Domain = ''example.localhost'', dl_MaxStreams = 2, dl_RateLimit = 5,
              dl_TokenBucket = NewTokenBucket 5 5 0, dl_CurrentStreams = 0,
              dl_LastReset = 0\<rparr>]\<rparr>) ''example.localhost'') ''agent-1''
       = Returns (None, inc_domain
         ((NewLimiter 100 1000)\<lparr>l_domainLimits := [''example.localhost'' \<mapsto>
             \<lparr>dl_Domain = ''example.localhost'', dl_MaxStreams = 2, dl_RateLimit = 5,
              dl_TokenBucket = NewTokenBucket 5 5 0, dl_CurrentStreams = 0,
              dl_LastReset = 0\<rparr>]\<rparr>) ''example.localhost'')"
proof -
  let ?l1 = "(NewLimiter 100 1000)\<lparr>l_domainLimits := [''example.localhost'' \<mapsto>
             \<lparr>dl_Domain = ''example.localhost'', dl_MaxStreams = 2, dl_RateLimit = 5,
              dl_TokenBucket = NewTokenBucket 5 5 0, dl_CurrentStreams = 0,
              dl_LastReset = 0\<rparr>]\<rparr>"
  have f0: "mutexes_free (NewLimiter 100 1000)"
    by (simp add: mutexes_free_def NewLimiter_def)
  have s1: "SetDomainLimit (NewLimiter 100 1000) ''example.localhost'' 2 5 0 0 = Returns ?l1"
    by (simp only: SetDomainLimit_free [OF f0]) (simp add: NewLimiter_def)
  have f1: "mutexes_free ?l1"
    by (simp add: mutexes_free_def NewLimiter_def)
  have s2: "AcquireStream ?l1 ''agent-1'' ''example.localhost''
      = Returns (None, inc_domain ?l1 ''example.localhost'')"
    by (simp only: AcquireStream_free [OF f1])
       (simp add: agent_stream_check_def domain_stream_check_def inc_agent_def NewLimiter_def)
  have run: "limiter_run (NewLimiter 100 1000)
      [OpSetDomainLimit ''example.localhost'' 2 5 0 0, OpAcquireStream ''agent-1'' ''example.localhost'']
     = Returns (inc_domain ?l1 ''example.localhost'')"
    by (simp add: s1 s2 bind_Returns state_of_def)
  note inst = GetDomainLimit_never_returns [of "inc_domain ?l1 ''example.localhost''"
      "''example.localhost''" 100 1000
      "[OpSetDomainLimit ''example.localhost'' 2 5 0 0, OpAcquireStream ''agent-1'' ''example.localhost'']"
      "''agent-1''"]
  from inst run have g: "GetDomainLimit (inc_domain ?l1 ''example.localhost'') ''example.localhost'' = Fatal"
    and h: "GetAgentLimit (inc_domain ?l1 ''example.localhost'') ''agent-1''
       = Returns (l_agentLimits (inc_domain ?l1 ''example.localhost'') ''agent-1'',
                  inc_domain ?l1 ''example.localhost'')"
    by blast+
  have "l_agentLimits (inc_domain ?l1 ''example.localhost'') ''agent-1'' = None"
    by (simp add: inc_dec_fields NewLimiter_def)
  with h have "GetAgentLimit (inc_domain ?l1 ''example.localhost'') ''agent-1''
       = Returns (None, inc_domain ?l1 ''example.localhost'')"
    by simp
  with run g show ?thesis by simp
qed

section \<open>Registry: the forward and the reverse index agree\<close>

lemma inv_NewRegistry: "registry_inv (NewRegistry b)"
  by (simp add: registry_inv_def registry_consistent_def NewRegistry_def)

lemma inv_RegisterTunnel:
  assumes "registry_inv r"
  shows "registry_inv (snd (RegisterTunnel r domain subdomain connectionID agentID md now1 now2))"
proof -
  let ?fd = "buildFullDomain r subdomain"
  show ?thesis
  proof (cases "domain \<noteq> [] \<and> domain \<noteq> ?fd")
    case True
    then show ?thesis using assms by (simp add: RegisterTunnel_def Let_def)
  next
    case False
    then have ok: "(domain \<noteq> [] \<and> domain \<noteq> ?fd) = False" by simp
    show ?thesis
    proof (cases "r_tunnels r ?fd")
      case (Some p)
      show ?thesis
      proof (cases "t_ConnectionID (r_objects r p) \<noteq> connectionID")
        case True
        then show ?thesis using assms Some by (simp add: RegisterTunnel_def Let_def ok)
      next
        case False
        then have res: "snd (RegisterTunnel r domain subdomain connectionID agentID md now1 now2)
           = r\<lparr>r_objects := (r_objects r)
                 (p := (r_objects r p)\<lparr>t_Metadata := md, t_LastAccess := now1\<rparr>)\<rparr>"
          using Some by (simp add: RegisterTunnel_def Let_def ok)
        show ?thesis
          unfolding res using assms
          by (auto simp: registry_inv_def registry_consistent_def)
      qed
    next
      case None
      let ?p = "r_fresh r"
      let ?entry = "case r_connTunnels r connectionID of None \<Rightarrow> [] | Some m \<Rightarrow> m"
      let ?t = "\<lparr>t_Domain = domain, t_Subdomain = subdomain, t_FullDomain = ?fd,
                 t_ConnectionID = connectionID, t_AgentID = agentID, t_CreatedAt = now1,
                 t_LastAccess = now2, t_Metadata = md\<rparr>"
      have res: "snd (RegisterTunnel r domain subdomain connectionID agentID md now1 now2)
           = r\<lparr>r_objects := (r_objects r)(?p := ?t), r_fresh := ?p + 1,
                r_tunnels := (r_tunnels r)(?fd \<mapsto> ?p),
                r_connTunnels := (r_connTunnels r)(connectionID \<mapsto> AList.update ?fd ?p ?entry)\<rparr>"
        using None by (simp add: RegisterTunnel_def Let_def ok)
      have fresh: "\<And>d p. r_tunnels r d = Some p \<Longrightarrow> p < ?p"
        using assms by (simp add: registry_inv_def)
      have fwd: "\<And>d p. r_tunnels r d = Some p \<Longrightarrow>
          \<exists>m. r_connTunnels r (t_ConnectionID (r_objects r p)) = Some m \<and> map_of m d = Some p"
        using assms by (simp add: registry_inv_def registry_consistent_def)
      have bwd: "\<And>c m d p. r_connTunnels r c = Some m \<Longrightarrow> map_of m d = Some p \<Longrightarrow>
          r_tunnels r d = Some p \<and> t_ConnectionID (r_objects r p) = c"
        using assms unfolding registry_inv_def registry_consistent_def by blast
      have full: "\<And>d p. r_tunnels r d = Some p \<Longrightarrow> t_FullDomain (r_objects r p) = d"
        using assms by (simp add: registry_inv_def)
      show ?thesis
        unfolding res registry_inv_def registry_consistent_def
      proof (intro conjI allI impI)
        fix d p
        assume a: "r_tunnels (r\<lparr>r_objects := (r_objects r)(?p := ?t), r_fresh := ?p + 1,
                r_tunnels := (r_tunnels r)(?fd \<mapsto> ?p),
                r_connTunnels := (r_connTunnels r)(connectionID \<mapsto> AList.update ?fd ?p ?entry)\<rparr>) d
              = Some p"
        show "\<exists>m. r_connTunnels (r\<lparr>r_objects := (r_objects r)(?p := ?t), r_fresh := ?p + 1,
                r_tunnels := (r_tunnels r)(?fd \<mapsto> ?p),
                r_connTunnels := (r_connTunnels r)(connectionID \<mapsto> AList.update ?fd ?p ?entry)\<rparr>)
               (t_ConnectionID (r_objects (r\<lparr>r_objects := (r_objects r)(?p := ?t), r_fresh := ?p + 1,
                r_tunnels := (r_tunnels r)(?fd \<mapsto> ?p),
                r_connTunnels := (r_connTunnels r)(connectionID \<mapsto> AList.update ?fd ?p ?entry)\<rparr>) p))
               = Some m \<and> map_of m d = Some p"
        proof (cases "d = ?fd")
          case True
          with a have "p = ?p" by simp
          then show ?thesis using True by (simp add: AList.update_conv')
        next
          case False
          with a have old: "r_tunnels r d = Some p" by simp
          then have ne: "p \<noteq> ?p" using fresh by fastforce
          from fwd [OF old] obtain m where
            m: "r_connTunnels r (t_ConnectionID (r_objects r p)) = Some m" "map_of m d = Some p"
            by blast
          show ?thesis
            using ne m False by (auto simp: AList.update_conv')
        qed
        show "p < r_fresh (r\<lparr>r_objects := (r_objects r)(?p := ?t), r_fresh := ?p + 1,
                r_tunnels := (r_tunnels r)(?fd \<mapsto> ?p),
                r_connTunnels := (r_connTunnels r)(connectionID \<mapsto> AList.update ?fd ?p ?entry)\<rparr>)"
          using a fresh by (cases "d = ?fd") (auto simp: less_Suc_eq)
        show "t_FullDomain (r_objects (r\<lparr>r_objects := (r_objects r)(?p := ?t), r_fresh := ?p + 1,
                r_tunnels := (r_tunnels r)(?fd \<mapsto> ?p),
                r_connTunnels := (r_connTunnels r)(connectionID \<mapsto> AList.update ?fd ?p ?entry)\<rparr>) p) = d"
          using a fresh full by (cases "d = ?fd") (auto split: if_splits)
      next
        fix c m d p
        assume a: "r_connTunnels (r\<lparr>r_objects := (r_objects r)(?p := ?t), r_fresh := ?p + 1,
                r_tunnels := (r_tunnels r)(?fd \<mapsto> ?p),
                r_connTunnels := (r_connTunnels r)(connectionID \<mapsto> AList.update ?fd ?p ?entry)\<rparr>) c
              = Some m \<and> map_of m d = Some p"
        have old: "d \<noteq> ?fd \<Longrightarrow> \<exists>m0. r_connTunnels r c = Some m0 \<and> map_of m0 d = Some p"
          using a by (cases "c = connectionID")
            (auto simp: AList.update_conv' split: option.splits if_splits)
        have new: "d = ?fd \<Longrightarrow> p = ?p \<and> c = connectionID"
        proof -
          assume d: "d = ?fd"
          show "p = ?p \<and> c = connectionID"
          proof (cases "c = connectionID")
            case True
            then show ?thesis using a d by (auto simp: AList.update_conv')
          next
            case False
            then have "r_connTunnels r c = Some m" using a by simp
            with a d have "r_tunnels r ?fd = Some p" using bwd by blast
            with None show ?thesis by simp
          qed
        qed
        show "r_tunnels (r\<lparr>r_objects := (r_objects r)(?p := ?t), r_fresh := ?p + 1,
                r_tunnels := (r_tunnels r)(?fd \<mapsto> ?p),
                r_connTunnels := (r_connTunnels r)(connectionID \<mapsto> AList.update ?fd ?p ?entry)\<rparr>) d
              = Some p"
          using old new bwd by (cases "d = ?fd") auto
        show "t_ConnectionID (r_objects (r\<lparr>r_objects := (r_objects r)(?p := ?t), r_fresh := ?p + 1,
                r_tunnels := (r_tunnels r)(?fd \<mapsto> ?p),
                r_connTunnels := (r_connTunnels r)(connectionID \<mapsto> AList.update ?fd ?p ?entry)\<rparr>) p) = c"
        proof (cases "d = ?fd")
          case True
          then show ?thesis using new by simp
        next
          case False
          from old [OF False] obtain m0 where
            "r_connTunnels r c = Some m0" "map_of m0 d = Some p" by blast
          then have "r_tunnels r d = Some p" "t_ConnectionID (r_objects r p) = c"
            using bwd by blast+
          moreover then have "p \<noteq> ?p" using fresh by fastforce
          ultimately show ?thesis by simp
        qed
      qed
    qed
  qed
qed

lemma inv_GetTunnel_touch:
  assumes "registry_inv r"
  shows "registry_inv (GetTunnel_touch r domain now)"
  using assms
  by (auto simp: GetTunnel_touch_def registry_inv_def registry_consistent_def
      split: option.splits)

lemma inv_UnregisterTunnel:
  assumes "registry_inv r"
  shows "registry_inv (snd (UnregisterTunnel r domain))"
proof (cases "r_tunnels r domain")
  case None
  then show ?thesis using assms by (simp add: UnregisterTunnel_def)
next
  case (Some p)
  let ?cid = "t_ConnectionID (r_objects r p)"
  have fwd: "\<And>d p. r_tunnels r d = Some p \<Longrightarrow>
      \<exists>m. r_connTunnels r (t_ConnectionID (r_objects r p)) = Some m \<and> map_of m d = Some p"
    using assms by (simp add: registry_inv_def registry_consistent_def)
  have bwd: "\<And>c m d p. r_connTunnels r c = Some m \<Longrightarrow> map_of m d = Some p \<Longrightarrow>
      r_tunnels r d = Some p \<and> t_ConnectionID (r_objects r p) = c"
    using assms unfolding registry_inv_def registry_consistent_def by blast
  have rest: "\<And>d p. r_tunnels r d = Some p \<Longrightarrow> p < r_fresh r \<and> t_FullDomain (r_objects r p) = d"
    using assms by (simp add: registry_inv_def)
  from fwd [OF Some] obtain m where m: "r_connTunnels r ?cid = Some m" "map_of m domain = Some p"
    by blast
  let ?m' = "AList.delete domain m"
  let ?ct = "if length ?m' = 0 then (r_connTunnels r)(?cid := None)
             else (r_connTunnels r)(?cid \<mapsto> ?m')"
  have res: "snd (UnregisterTunnel r domain)
      = r\<lparr>r_tunnels := (r_tunnels r)(domain := None), r_connTunnels := ?ct\<rparr>"
    using Some m by (simp add: UnregisterTunnel_def Let_def)
  have m': "map_of ?m' = (map_of m)(domain := None)"
    by (rule AList.delete_conv')
  have ct_cid: "\<And>m1 d q. ?ct ?cid = Some m1 \<Longrightarrow> map_of m1 d = Some q \<Longrightarrow>
      d \<noteq> domain \<and> map_of m d = Some q"
    using m' by (auto split: if_splits)
  have ct_other: "\<And>c. c \<noteq> ?cid \<Longrightarrow> ?ct c = r_connTunnels r c"
    by simp
  have ct_keep: "\<And>d q. d \<noteq> domain \<Longrightarrow> map_of m d = Some q \<Longrightarrow>
      \<exists>m1. ?ct ?cid = Some m1 \<and> map_of m1 d = Some q"
  proof -
    fix d q assume d: "d \<noteq> domain" "map_of m d = Some q"
    then have "map_of ?m' d = Some q" by (simp add: m')
    moreover then have "?m' \<noteq> []" by auto
    ultimately show "\<exists>m1. ?ct ?cid = Some m1 \<and> map_of m1 d = Some q" by simp
  qed
  show ?thesis
    unfolding res registry_inv_def registry_consistent_def
  proof (intro conjI allI impI)
    fix d q
    assume a: "r_tunnels (r\<lparr>r_tunnels := (r_tunnels r)(domain := None), r_connTunnels := ?ct\<rparr>) d
        = Some q"
    then have dne: "d \<noteq> domain" and old: "r_tunnels r d = Some q"
      by (auto split: if_splits)
    from fwd [OF old] obtain m0 where
      m0: "r_connTunnels r (t_ConnectionID (r_objects r q)) = Some m0" "map_of m0 d = Some q"
      by blast
    show "\<exists>m1. r_connTunnels (r\<lparr>r_tunnels := (r_tunnels r)(domain := None), r_connTunnels := ?ct\<rparr>)
             (t_ConnectionID (r_objects (r\<lparr>r_tunnels := (r_tunnels r)(domain := None),
                 r_connTunnels := ?ct\<rparr>) q)) = Some m1 \<and> map_of m1 d = Some q"
    proof (cases "t_ConnectionID (r_objects r q) = ?cid")
      case True
      with m0 m have "map_of m d = Some q" by simp
      from ct_keep [OF dne this] show ?thesis using True by simp
    next
      case False
      then show ?thesis using m0 ct_other [OF False] by simp
    qed
    show "q < r_fresh (r\<lparr>r_tunnels := (r_tunnels r)(domain := None), r_connTunnels := ?ct\<rparr>)"
      using rest [OF old] by simp
    show "t_FullDomain (r_objects (r\<lparr>r_tunnels := (r_tunnels r)(domain := None),
              r_connTunnels := ?ct\<rparr>) q) = d"
      using rest [OF old] by simp
  next
    fix c m1 d q
    assume a: "r_connTunnels (r\<lparr>r_tunnels := (r_tunnels r)(domain := None), r_connTunnels := ?ct\<rparr>) c
        = Some m1 \<and> map_of m1 d = Some q"
    have both: "d \<noteq> domain \<and> r_tunnels r d = Some q \<and> t_ConnectionID (r_objects r q) = c"
    proof (cases "c = ?cid")
      case True
      with a have "?ct ?cid = Some m1" "map_of m1 d = Some q" by simp_all
      from ct_cid [OF this] have "d \<noteq> domain" "map_of m d = Some q" by simp_all
      then show ?thesis using bwd [OF m(1)] True by simp
    next
      case False
      with a have c: "r_connTunnels r c = Some m1" "map_of m1 d = Some q"
        using ct_other [OF False] by simp_all
      from bwd [OF this] have o: "r_tunnels r d = Some q" "t_ConnectionID (r_objects r q) = c"
        by simp_all
      have "d \<noteq> domain"
      proof
        assume "d = domain"
        with o Some have "q = p" by simp
        with o False show False by simp
      qed
      then show ?thesis using o by simp
    qed
    show "r_tunnels (r\<lparr>r_tunnels := (r_tunnels r)(domain := None), r_connTunnels := ?ct\<rparr>) d
        = Some q"
      using both by simp
    show "t_ConnectionID (r_objects (r\<lparr>r_tunnels := (r_tunnels r)(domain := None),
              r_connTunnels := ?ct\<rparr>) q) = c"
      using both by simp
  qed
qed

lemma inv_unregister_each: "registry_inv r \<Longrightarrow> registry_inv (unregister_each r domains)"
  by (induction domains arbitrary: r) (simp_all add: inv_UnregisterTunnel)

lemma inv_UnregisterConnectionTunnels:
  "registry_inv r \<Longrightarrow> registry_inv (UnregisterConnectionTunnels r connectionID domains)"
  by (simp add: UnregisterConnectionTunnels_def inv_unregister_each split: option.splits)

lemma inv_registry_call: "registry_inv r \<Longrightarrow> registry_inv (registry_call r x)"
  by (cases x)
    (simp_all add: inv_RegisterTunnel inv_GetTunnel_touch inv_UnregisterTunnel
      inv_UnregisterConnectionTunnels)

lemma inv_registry_run: "registry_inv r \<Longrightarrow> registry_inv (registry_run r xs)"
  by (induction xs arbitrary: r) (simp_all add: inv_registry_call)

text \<open>
  C8. After any sequence of \<open>RegisterTunnel\<close>, \<open>UnregisterTunnel\<close> and
  \<open>UnregisterConnectionTunnels\<close> calls (and lookups by \<open>GetTunnel\<close>) on a new registry,
  whatever the order in which a \<open>range\<close> yields its keys, the two indices agree: a domain is
  in the forward map exactly when it is in the reverse entry of its tunnel's connection,
  with the same tunnel there; the forward map gives a full domain at most one tunnel, the one
  whose \<open>FullDomain\<close> it is.
\<close>

theorem registry_indices_consistent:
  "registry_consistent (registry_run (NewRegistry baseDomain) xs)
   \<and> (\<forall>d p. r_tunnels (registry_run (NewRegistry baseDomain) xs) d = Some p
         \<longrightarrow> t_FullDomain (r_objects (registry_run (NewRegistry baseDomain) xs) p) = d)"
  using inv_registry_run [OF inv_NewRegistry, of baseDomain xs]
  by (simp add: registry_inv_def)

lemma scenario_registered_maps:
  "r_tunnels scenario_registered =
     [''a.localhost'' \<mapsto> 0, ''b.localhost'' \<mapsto> 1, ''c.localhost'' \<mapsto> 2]"
  "r_connTunnels scenario_registered =
     [''conn-1'' \<mapsto> [(''a.localhost'', 0), (''b.localhost'', 1)],
      ''conn-2'' \<mapsto> [(''c.localhost'', 2)]]"
  "t_ConnectionID (r_objects scenario_registered 0) = ''conn-1''"
  "t_ConnectionID (r_objects scenario_registered (Suc 0)) = ''conn-1''"
  "t_ConnectionID (r_objects scenario_registered (Suc (Suc 0))) = ''conn-2''"
  by (simp_all add: scenario_registered_def NewRegistry_def RegisterTunnel_def
      buildFullDomain_def Let_def numeral_2_eq_2)

lemma scenario_cleaned_eq:
  "scenario_cleaned =
     UnregisterConnectionTunnels scenario_registered ''conn-1'' [''b.localhost'', ''a.localhost'']"
  by (simp add: scenario_cleaned_def scenario_registered_def)

lemma scenario_cleaned_maps:
  "r_tunnels scenario_cleaned = [''c.localhost'' \<mapsto> 2]"
  "r_connTunnels scenario_cleaned = [''conn-2'' \<mapsto> [(''c.localhost'', 2)]]"
  unfolding scenario_cleaned_eq
  by (simp_all add: UnregisterConnectionTunnels_def UnregisterTunnel_def
      scenario_registered_maps Let_def AList.delete_eq fun_eq_iff numeral_2_eq_2)

theorem registry_indices_consistent_witness:
  "range_order scenario_registered ''conn-1'' [''b.localhost'', ''a.localhost'']
   \<and> registry_consistent scenario_cleaned
   \<and> r_tunnels scenario_cleaned ''a.localhost'' = None
   \<and> r_tunnels scenario_cleaned ''b.localhost'' = None
   \<and> r_tunnels scenario_cleaned ''c.localhost'' = Some 2
   \<and> t_FullDomain (r_objects scenario_cleaned 2) = ''c.localhost''
   \<and> r_connTunnels scenario_cleaned ''conn-1'' = None
   \<and> r_connTunnels scenario_cleaned ''conn-2'' = Some [(''c.localhost'', 2)]"
proof -
  note inst = registry_indices_consistent [of "''localhost''"
      "[OpRegisterTunnel [] ''a'' ''conn-1'' ''agent-1'' None 1 1,
        OpRegisterTunnel [] ''b'' ''conn-1'' ''agent-1'' None 2 2,
        OpRegisterTunnel [] ''c'' ''conn-2'' ''agent-2'' None 3 3,
        OpUnregisterConnectionTunnels ''conn-1'' [''b.localhost'', ''a.localhost'']]",
      folded scenario_cleaned_def]
  have order: "range_order scenario_registered ''conn-1'' [''b.localhost'', ''a.localhost'']"
    by (auto simp: range_order_def scenario_registered_maps)
  have c: "r_tunnels scenario_cleaned ''c.localhost'' = Some 2"
    by (simp add: scenario_cleaned_maps)
  with inst have "t_FullDomain (r_objects scenario_cleaned 2) = ''c.localhost''"
    by blast
  with inst order c show ?thesis
    by (simp add: scenario_cleaned_maps)
qed

section \<open>A connection with its mutexes free\<close>

lemma streamsMu_same: "c_streamsMu c = mu \<Longrightarrow> c\<lparr>c_streamsMu := mu\<rparr> = c"
  by auto

lemma closedMu_same: "c_closedMu c = mu \<Longrightarrow> c\<lparr>c_closedMu := mu\<rparr> = c"
  by auto

lemma AllocateStreamID_free:
  "c_streamsMu c = unlocked \<Longrightarrow>
   AllocateStreamID c = Returns (c_nextStreamID c, c\<lparr>c_nextStreamID := c_nextStreamID c + 1\<rparr>)"
  by (simp add: AllocateStreamID_def mutex_simps Let_def streamsMu_same)

lemma GetStream_free:
  "c_streamsMu c = unlocked \<Longrightarrow> GetStream c streamID = Returns (map_of (c_streams c) streamID, c)"
  by (simp add: GetStream_def mutex_simps Let_def streamsMu_same)

lemma SendFrame_free:
  "c_closedMu c = unlocked \<Longrightarrow>
   SendFrame c frame encoded =
     Returns (if c_closed c then (Some ErrConnectionClosed, c)
              else (case encoded of
                      None \<Rightarrow> (None, c\<lparr>c_sent := c_sent c @ [frame]\<rparr>)
                    | Some e \<Rightarrow> (Some e, c)))"
  by (simp add: SendFrame_def mutex_simps Let_def closedMu_same RLock_def RUnlock_def
      bind_outcome_def unlocked_def split: option.splits)

lemma createStream_free:
  "c_streamsMu c = unlocked \<Longrightarrow>
   createStream c streamID now =
     Returns (c_fresh c,
       c\<lparr>c_objects := (c_objects c)(c_fresh c :=
            \<lparr>s_ID = streamID, s_State = StreamStateInit, s_CreatedAt = now, s_Metadata = [],
             s_dataIn = [], s_dataOut = [], s_closeCh = False\<rparr>),
         c_fresh := c_fresh c + 1,
         c_streams := AList.update streamID (c_fresh c) (c_streams c)\<rparr>)"
  by (simp add: createStream_def mutex_simps Let_def streamsMu_same)

lemma closeStream_free:
  "c_streamsMu c = unlocked \<Longrightarrow>
   closeStream c streamID =
     (case map_of (c_streams c) streamID of
        None \<Rightarrow> Returns c
      | Some p \<Rightarrow>
          if s_closeCh (c_objects c p) then Fatal
          else Returns (c\<lparr>c_objects := (c_objects c)(p := (c_objects c p)\<lparr>s_closeCh := True\<rparr>),
                         c_streams := AList.delete streamID (c_streams c)\<rparr>))"
  by (simp add: closeStream_def mutex_simps Let_def streamsMu_same Lock_def Unlock_def
      bind_outcome_def unlocked_def split: option.splits)

lemma closeStream_held: "writer (c_streamsMu c) \<Longrightarrow> closeStream c streamID = Blocked"
  by (simp add: closeStream_def Lock_def bind_outcome_def)

lemma updateHeartbeat_free:
  "c_closedMu c = unlocked \<Longrightarrow> updateHeartbeat c now = Returns (c\<lparr>c_LastHeartbeat := now\<rparr>)"
  by (simp add: updateHeartbeat_def mutex_simps Let_def closedMu_same)

section \<open>Close\<close>

lemma Close_closed: "conn_free c \<Longrightarrow> c_closed c \<Longrightarrow> Close c = Returns c"
  by (simp add: Close_def conn_free_def mutex_simps closedMu_same)

lemma Close_no_streams:
  "conn_free c \<Longrightarrow> \<not> c_closed c \<Longrightarrow> c_streams c = [] \<Longrightarrow>
   Close c = Returns (c\<lparr>c_closed := True, c_cancelled := True, c_Conn_closed := True\<rparr>)"
  by (simp add: Close_def conn_free_def mutex_simps Let_def Lock_def Unlock_def
      bind_outcome_def unlocked_def)

lemma Close_live_stream_Blocked:
  assumes "conn_free c" and "\<not> c_closed c" and "c_streams c \<noteq> []"
  shows "Close c = Blocked"
proof -
  obtain k ks where ks: "map fst (c_streams c) = k # ks"
    using assms(3) by (cases "c_streams c") auto
  have held: "\<And>c'. closeStream (c'\<lparr>c_streamsMu := \<lparr>readers = 0, writer = True\<rparr>\<rparr>) k = Blocked"
    by (rule closeStream_held) simp
  show ?thesis
    using assms(1,2) ks
    by (simp add: Close_def conn_free_def Let_def Lock_def Unlock_def bind_outcome_def
        unlocked_def held)
qed

lemma registered_manager_fields:
  "m_objects registered_manager 0 = new_connection"
  "m_connections registered_manager = [(''conn-1'', 0)]"
  "m_heartbeatTimeout registered_manager = 200000000"
  "m_onConnectionClosed registered_manager"
  "m_onStreamCreated registered_manager"
  "m_onStreamClosed registered_manager"
  "m_calls registered_manager = []"
  by (simp_all add: registered_manager_def RegisterConnection_def NewManager_def
      SetOnConnectionClosed_def SetOnStreamCreated_def SetOnStreamClosed_def
      new_connection_def Let_def)

lemma new_connection_free: "conn_free new_connection"
  by (simp add: conn_free_def new_connection_def)

lemma one_stream_connection_free: "conn_free one_stream_connection"
  by (simp add: conn_free_def one_stream_connection_def new_connection_def)

text \<open>
  C2, where the code fails. \<open>Close\<close> takes the write lock of \<open>streamsMu\<close> and, holding it,
  calls \<open>closeStream\<close> for the first stream of the table, which takes the same lock: on a
  connection with a live stream (here the one \<open>createStream\<close> makes of a new connection)
  \<open>Close\<close> never returns. The connection is marked closed and its context is cancelled
  before that; no close signal fires, the table is not emptied, the socket is not closed.
\<close>

theorem Close_with_live_stream_never_returns:
  "createStream new_connection 7 5 = Returns (0, one_stream_connection)
   \<and> conn_free one_stream_connection
   \<and> \<not> c_closed one_stream_connection
   \<and> map fst (c_streams one_stream_connection) = [7]
   \<and> Close one_stream_connection = Blocked"
proof -
  have "createStream new_connection 7 5 = Returns (0, one_stream_connection)"
    by (simp only: createStream_free [of new_connection, OF new_connection_free [unfolded conn_free_def, THEN conjunct1]])
       (simp add: new_connection_def one_stream_connection_def)
  moreover have "Close one_stream_connection = Blocked"
    by (rule Close_live_stream_Blocked [OF one_stream_connection_free])
       (simp_all add: one_stream_connection_def new_connection_def)
  ultimately show ?thesis
    using one_stream_connection_free
    by (simp add: one_stream_connection_def new_connection_def)
qed

section \<open>The frame loop\<close>

lemma objects_same: "m\<lparr>m_objects := (m_objects m)(p := m_objects m p)\<rparr> = m"
  by simp





lemma update_connection_Close_no_streams:
  assumes "conn_free (m_objects m p)" and "\<not> c_closed (m_objects m p)"
    and "c_streams (m_objects m p) = []"
  shows "update_connection m p Close =
     Returns (m\<lparr>m_objects := (m_objects m)(p :=
        (m_objects m p)\<lparr>c_closed := True, c_cancelled := True, c_Conn_closed := True\<rparr>)\<rparr>)"
  by (simp add: update_connection_def Close_no_streams [OF assms] bind_Returns)

lemma registered_Close:
  "update_connection registered_manager 0 Close = Returns manager_after_loop"
  unfolding manager_after_loop_def closed_connection_def
    registered_manager_fields(1) [symmetric]
  by (rule update_connection_Close_no_streams)
     (simp_all add: registered_manager_fields new_connection_free, simp_all add: new_connection_def)

lemma closeStream_removes:
  "c_streamsMu c = unlocked \<Longrightarrow> closeStream c streamID = Returns c' \<Longrightarrow>
   map_of (c_streams c') streamID = None"
  by (auto simp: closeStream_free AList.delete_conv' split: option.splits if_splits)




text \<open>
  C5, where the code fails. With \<open>on_connection_closed\<close> installed, the goroutine of
  \<open>conn-1\<close> leaves its loop on a heartbeat timeout (a tick 250 ms after the last heartbeat,
  the timeout being 200 ms), on a read error, on a \<open>CLOSE\<close> frame of the agent and on a
  control frame of an unknown type; each time its deferred \<open>Close\<close> closes the connection,
  no callback is called, and the manager's map still holds the connection. Only
  \<open>CloseConnection\<close> calls the callback, once.
\<close>

theorem loop_exit_calls_no_callback:
  "m_onConnectionClosed registered_manager
   \<and> handleConnection registered_manager 0 [TakeTicker 250000000] = Returns (True, manager_after_loop)
   \<and> handleConnection registered_manager 0 [TakeReadError] = Returns (True, manager_after_loop)
   \<and> handleConnection registered_manager 0 [TakeFrame (stream_frame FrameClose FlagNone 0 []) 5 0]
        = Returns (True, manager_after_loop)
   \<and> handleConnection registered_manager 0 [TakeFrame (stream_frame (FrameOther 99) FlagNone 0 []) 5 0]
        = Returns (True, manager_after_loop)
   \<and> c_closed (m_objects manager_after_loop 0)
   \<and> m_calls manager_after_loop = []
   \<and> GetConnection manager_after_loop ''conn-1'' = Some 0
   \<and> CloseConnection registered_manager ''conn-1''
        = Returns (None, manager_after_loop\<lparr>m_connections := [],
                                            m_calls := [ConnectionClosed ''conn-1'']\<rparr>)"
proof -
  have t: "handleConnection registered_manager 0 [TakeTicker 250000000] = Returns (True, manager_after_loop)"
    by (simp add: handleConnection_def registered_manager_fields bind_Returns registered_Close
        new_connection_def)
  have e: "handleConnection registered_manager 0 [TakeReadError] = Returns (True, manager_after_loop)"
    by (simp add: handleConnection_def bind_Returns registered_Close)
  have c: "handleConnection registered_manager 0 [TakeFrame (stream_frame FrameClose FlagNone 0 []) 5 0]
        = Returns (True, manager_after_loop)"
    by (simp add: handleConnection_def handleFrame_def IsControlFrame_def handleControlFrame_def
        stream_frame_def bind_Returns registered_Close)
  have u: "handleConnection registered_manager 0 [TakeFrame (stream_frame (FrameOther 99) FlagNone 0 []) 5 0]
        = Returns (True, manager_after_loop)"
    by (simp add: handleConnection_def handleFrame_def IsControlFrame_def handleControlFrame_def
        stream_frame_def bind_Returns registered_Close)
  have x: "CloseConnection registered_manager ''conn-1''
        = Returns (None, manager_after_loop\<lparr>m_connections := [],
                                            m_calls := [ConnectionClosed ''conn-1'']\<rparr>)"
  proof -
    have "update_connection (registered_manager\<lparr>m_connections := []\<rparr>) 0 Close
        = Returns (manager_after_loop\<lparr>m_connections := []\<rparr>)"
      by (subst update_connection_Close_no_streams)
         (simp_all add: registered_manager_fields new_connection_free manager_after_loop_def
           closed_connection_def, simp_all add: new_connection_def)
    then show ?thesis
      by (simp add: CloseConnection_def registered_manager_fields AList.delete_eq Let_def
          bind_Returns manager_after_loop_def)
  qed
  show ?thesis
    using t e c u x
    by (simp add: registered_manager_fields manager_after_loop_def closed_connection_def
        GetConnection_def)
qed

section \<open>Stream ids\<close>

lemma allocate_n_free:
  "c_streamsMu c = unlocked \<Longrightarrow>
   allocate_n c n = Returns (c\<lparr>c_nextStreamID := c_nextStreamID c + of_nat n\<rparr>)"
proof (induction n arbitrary: c)
  case 0
  then show ?case by simp
next
  case (Suc n)
  have "c_streamsMu (c\<lparr>c_nextStreamID := c_nextStreamID c + 1\<rparr>) = unlocked"
    using Suc.prems by simp
  from Suc.IH [OF this] show ?case
    by (simp add: AllocateStreamID_free [OF Suc.prems] bind_Returns add.assoc)
qed

lemma RegisterConnection_new:
  assumes "RegisterConnection m connID agentID md now1 now2 = (Inr p, m')"
  shows "c_nextStreamID (m_objects m' p) = 1" and "c_streamsMu (m_objects m' p) = unlocked"
    and "c_streams (m_objects m' p) = []"
  using assms
  by (auto simp: RegisterConnection_def Let_def split: if_splits option.splits)

text \<open>
  C9. \<open>RegisterConnection\<close> starts a connection at \<open>nextStreamID = 1\<close>, and
  \<open>AllocateStreamID\<close> returns \<open>nextStreamID\<close> and adds 1 to it in 32 bits: after \<open>k\<close>
  allocations the next one returns \<open>1 + k\<close> modulo \<open>2^32\<close>, and after \<open>2^32 - 1\<close>
  allocations the next one returns 0, the stream id of the control frames, so that a frame
  the router sends on that stream is a control frame.
\<close>

theorem stream_id_wraps_to_control_id:
  assumes "RegisterConnection m connID agentID md now1 now2 = (Inr p, m')"
  shows "(\<exists>c' c''. allocate_n (m_objects m' p) (2 ^ 32 - 1) = Returns c'
            \<and> AllocateStreamID c' = Returns (0, c''))
       \<and> IsControlFrame (stream_frame FrameOpenStream FlagNone 0 payload)
       \<and> (\<forall>k. \<exists>c' c''. allocate_n (m_objects m' p) k = Returns c'
              \<and> AllocateStreamID c' = Returns (1 + of_nat k, c''))"
proof -
  let ?c = "m_objects m' p"
  note new = RegisterConnection_new [OF assms]
  have step: "\<And>k. allocate_n ?c k = Returns (?c\<lparr>c_nextStreamID := 1 + of_nat k\<rparr>)
      \<and> AllocateStreamID (?c\<lparr>c_nextStreamID := 1 + of_nat k\<rparr>)
           = Returns (1 + of_nat k, ?c\<lparr>c_nextStreamID := 1 + of_nat k + 1\<rparr>)"
    using new(1,2) by (simp add: allocate_n_free AllocateStreamID_free)
  have wrap: "(1 :: u32) + of_nat (2 ^ 32 - 1) = 0"
    by simp
  from step [of "2 ^ 32 - 1"] have
    "\<exists>c' c''. allocate_n ?c (2 ^ 32 - 1) = Returns c' \<and> AllocateStreamID c' = Returns (0, c'')"
    unfolding wrap by blast
  moreover have "\<forall>k. \<exists>c' c''. allocate_n ?c k = Returns c'
              \<and> AllocateStreamID c' = Returns (1 + of_nat k, c'')"
    using step by blast
  ultimately show ?thesis
    by (simp add: IsControlFrame_def stream_frame_def)
qed

theorem stream_id_wraps_to_control_id_witness:
  "RegisterConnection
      (SetOnStreamClosed (SetOnStreamCreated (SetOnConnectionClosed (NewManager 100 200000000))))
      ''conn-1'' ''agent-1'' None 0 0 = (Inr 0, registered_manager)
   \<and> (\<exists>c' c''. allocate_n (m_objects registered_manager 0) (2 ^ 32 - 1) = Returns c'
            \<and> AllocateStreamID c' = Returns (0, c''))
   \<and> allocate_n (m_objects registered_manager 0) 2 = Returns (new_connection\<lparr>c_nextStreamID := 3\<rparr>)
   \<and> AllocateStreamID (new_connection\<lparr>c_nextStreamID := 3\<rparr>)
        = Returns (3, new_connection\<lparr>c_nextStreamID := 4\<rparr>)"
proof -
  have reg: "RegisterConnection
      (SetOnStreamClosed (SetOnStreamCreated (SetOnConnectionClosed (NewManager 100 200000000))))
      ''conn-1'' ''agent-1'' None 0 0 = (Inr 0, registered_manager)"
    by (simp add: registered_manager_def RegisterConnection_def NewManager_def
        SetOnConnectionClosed_def SetOnStreamCreated_def SetOnStreamClosed_def Let_def)
  note inst = stream_id_wraps_to_control_id [OF reg]
  have two: "allocate_n (m_objects registered_manager 0) 2 = Returns (new_connection\<lparr>c_nextStreamID := 3\<rparr>)"
    by (simp add: registered_manager_fields allocate_n_free new_connection_def)
  have three: "AllocateStreamID (new_connection\<lparr>c_nextStreamID := 3\<rparr>)
        = Returns (3, new_connection\<lparr>c_nextStreamID := 4\<rparr>)"
    by (simp add: AllocateStreamID_free new_connection_def)
  from inst reg two three show ?thesis by blast
qed

section \<open>The router\<close>

lemma on_connection_free:
  "f (m_objects m p) = Returns (x, c') \<Longrightarrow>
   on_connection m p f = Returns (x, m\<lparr>m_objects := (m_objects m)(p := c')\<rparr>)"
  by (simp add: on_connection_def bind_Returns)

text \<open>
  Neither \<open>AllocateStreamID\<close> nor \<open>SendFrame\<close> touches the stream table or the streams: no
  path of the router calls \<open>createStream\<close>.
\<close>

lemma AllocateStreamID_keeps_streams:
  "AllocateStreamID c = Returns (streamID, c1) \<Longrightarrow>
   c_streams c1 = c_streams c \<and> c_objects c1 = c_objects c"
  by (auto simp: AllocateStreamID_def Lock_def Unlock_def bind_outcome_def Let_def
      split: if_splits)

lemma SendFrame_keeps_streams:
  "SendFrame c frame encoded = Returns (err, c1) \<Longrightarrow>
   c_streams c1 = c_streams c \<and> c_objects c1 = c_objects c"
  by (auto simp: SendFrame_def RLock_def RUnlock_def bind_outcome_def Let_def
      split: if_splits option.splits)

lemma example_registry_fields:
  "GetTunnel example_registry ''example.localhost'' = Some 0"
  "t_ConnectionID (r_objects example_registry 0) = ''conn-1''"
  "t_AgentID (r_objects example_registry 0) = ''agent-1''"
  by (simp_all add: example_registry_def RegisterTunnel_def NewRegistry_def GetTunnel_def
      buildFullDomain_def Let_def)

lemma handleRequest_new_connection:
  "handleRequest
      (registered_manager\<lparr>m_objects := (m_objects registered_manager)
         (0 := new_connection\<lparr>c_nextStreamID := 2\<rparr>)\<rparr>) 0 1 new_writer example_request silent_run
   = Returns (Some StreamNotFoundAfterCreation, new_writer,
       registered_manager\<lparr>m_objects := (m_objects registered_manager)
         (0 := new_connection\<lparr>c_nextStreamID := 2,
                c_sent := [\<lparr>f_Version = Version, f_Type = FrameOpenStream, f_Flags = FlagNone,
                            f_StreamID = 1,
                            f_Payload = buildRequestPayload example_request\<rparr>]\<rparr>)\<rparr>)"
  by (simp add: handleRequest_def on_connection_def SendFrame_free GetStream_free bind_Returns
      silent_run_def new_connection_def Let_def)

text \<open>
  C1, where the code fails. On a connection as \<open>RegisterConnection\<close> leaves it, the router
  allocates the stream id 1 and sends the \<open>OPEN_STREAM\<close> frame; the stream table is still
  empty, \<open>GetStream\<close> finds nothing, and the handler answers 500 with "stream not found
  after creation".
\<close>

theorem router_never_creates_stream:
  "ServeHTTP example_router new_writer example_request silent_run
     = Returns (\<lparr>w_status = Some 500, w_body = ''stream not found after creation'' @ [CHR 0x0A]\<rparr>,
         example_router\<lparr>rt_connManager :=
           registered_manager\<lparr>m_objects := (m_objects registered_manager)
             (0 := new_connection\<lparr>c_nextStreamID := 2,
                c_sent := [\<lparr>f_Version = Version, f_Type = FrameOpenStream, f_Flags = FlagNone,
                            f_StreamID = 1,
                            f_Payload = buildRequestPayload example_request\<rparr>]\<rparr>)\<rparr>\<rparr>)
   \<and> c_streams (new_connection\<lparr>c_nextStreamID := 2,
                c_sent := [\<lparr>f_Version = Version, f_Type = FrameOpenStream, f_Flags = FlagNone,
                            f_StreamID = 1,
                            f_Payload = buildRequestPayload example_request\<rparr>]\<rparr>) = []"
proof -
  have alloc: "on_connection registered_manager 0 AllocateStreamID
      = Returns (1, registered_manager\<lparr>m_objects := (m_objects registered_manager)
         (0 := new_connection\<lparr>c_nextStreamID := 2\<rparr>)\<rparr>)"
    by (simp add: on_connection_def registered_manager_fields AllocateStreamID_free
        bind_Returns new_connection_def)
  have "ServeHTTP example_router new_writer example_request silent_run
     = Returns (http_Error new_writer (router_error_text StreamNotFoundAfterCreation)
                  StatusInternalServerError,
         example_router\<lparr>rt_connManager :=
           registered_manager\<lparr>m_objects := (m_objects registered_manager)
             (0 := new_connection\<lparr>c_nextStreamID := 2,
                c_sent := [\<lparr>f_Version = Version, f_Type = FrameOpenStream, f_Flags = FlagNone,
                            f_StreamID = 1,
                            f_Payload = buildRequestPayload example_request\<rparr>]\<rparr>)\<rparr>\<rparr>)"
    by (simp add: ServeHTTP_def example_router_def NewRouter_def example_registry_fields
        GetConnection_def registered_manager_fields check_quota_def acquire_quota_def
        release_deferred_def bind_Returns alloc handleRequest_new_connection Let_def
        example_request_def [THEN arg_cong, of q_Host])
  then show ?thesis
    by (simp add: http_Error_def Write_def WriteHeader_def StatusInternalServerError_def
        new_writer_def new_connection_def Let_def)
qed

section \<open>The deadline of a request\<close>











end
